theory Spec2Isabelle
  imports Complex_Main "HOL-Library.Word"
begin

section \<open>agent-exec: a shallow embedding of \<open>src/agent-exec.ts\<close>\<close>

text \<open>
  The program is one TypeScript file. Its pure functions are translated one by one, under
  their own names. What the program reads from outside (the environment, the working
  directory, the file system, the child processes) is collected in a record \<open>host\<close> and
  passed explicitly.

  A JavaScript string is a sequence of code units; it is modelled by \<open>string\<close>, a list of
  characters. A \<open>Buffer\<close> is a list of bytes. A JavaScript number is modelled by
  \<open>jsnum\<close>: not-a-number, the two infinities, or a finite value, which is a rational.
  A value that may be \<open>undefined\<close> or \<open>null\<close> is an \<open>option\<close>.
\<close>

subsection \<open>Types\<close>

datatype AgentName = Codex | Claude | Cursor

datatype OutputFormat = Json | Text

datatype InputMode = Auto | Arg | Stdin | NoInput

datatype jsnum = NaN | PosInf | NegInf | Fin rat

type_synonym byte = "8 word"

type_synonym buffer = "byte list"

record Options =
  agent :: "AgentName option"
  dir :: "string option"
  format :: OutputFormat
  input :: InputMode
  maxBytes :: rat
  includeContent :: bool
  listAgentsOpt :: bool
  modelId :: "string option"
  helpOpt :: bool

record AgentConfig =
  name :: AgentName
  cmd :: string
  args :: "string list"

record Change =
  path :: string
  status :: string
  content :: "string option"
  truncated :: "bool option"
  binary :: "bool option"

text \<open>
  In \<open>Options\<close> the field \<open>dir\<close> is an option because \<open>parseArgs\<close> stores \<open>argv[i + 1]\<close>
  there, which is \<open>undefined\<close> past the end of the array; \<open>listAgentsOpt\<close> and \<open>helpOpt\<close>
  are the fields \<open>list\<close> and \<open>help\<close> (\<open>help\<close> is only ever tested for truth, so the
  missing field is \<open>False\<close>); \<open>maxBytes\<close> is always the result of \<open>normalizeMaxBytes\<close>, a
  finite number.
\<close>

record host =
  procEnv :: "string \<Rightarrow> string option"
  procCwd :: string
  stringToNumber :: "string \<Rightarrow> jsnum"
  commandExists :: "string \<Rightarrow> bool"
  pathResolve :: "string \<Rightarrow> string \<Rightarrow> string"
  gitStatus :: "string \<Rightarrow> string \<times> int option"
  readFile :: "string \<Rightarrow> buffer option"
  utf8 :: "buffer \<Rightarrow> string"

text \<open>
  \<open>procEnv\<close> is \<open>process.env\<close>, \<open>procCwd\<close> is \<open>process.cwd()\<close>, \<open>stringToNumber\<close> is
  \<open>Number\<close> on a string, \<open>commandExists\<close> the lookup of a command on the search path,
  \<open>pathResolve cwd p\<close> is \<open>path.resolve(cwd, p)\<close>, \<open>gitStatus cwd\<close> is the output and the
  exit code (\<open>None\<close> when the process ended without one) of \<open>git status --porcelain=v1\<close>
  in \<open>cwd\<close>, \<open>readFile\<close> is \<open>fs.readFile\<close> (\<open>None\<close> when it throws) and \<open>utf8\<close> is
  \<open>Buffer.toString("utf-8")\<close>.
\<close>

subsection \<open>Strings\<close>

definition truthy :: "string option \<Rightarrow> bool" where
  "truthy v = (case v of None \<Rightarrow> False | Some s \<Rightarrow> s \<noteq> [])"

definition orElse :: "string option \<Rightarrow> string \<Rightarrow> string" where
  \<comment> \<open>\<open>v || d\<close> for a string \<open>d\<close>\<close>
  "orElse v d = (case v of None \<Rightarrow> d | Some s \<Rightarrow> if s \<noteq> [] then s else d)"

definition startsWith :: "string \<Rightarrow> string \<Rightarrow> bool" where
  "startsWith s p = (take (length p) s = p)"

fun includesStr :: "string \<Rightarrow> string \<Rightarrow> bool" where
  "includesStr [] p = (p = [])"
| "includesStr (c # cs) p = (startsWith (c # cs) p \<or> includesStr cs p)"

definition isWhiteSpace :: "char \<Rightarrow> bool" where
  \<comment> \<open>the white space and line terminators that \<open>trim\<close> removes, among the code units below 256\<close>
  "isWhiteSpace c = (of_char c \<in> {9, 10, 11, 12, 13, 32, 160 :: nat})"

definition trim :: "string \<Rightarrow> string" where
  "trim s = rev (dropWhile isWhiteSpace (rev (dropWhile isWhiteSpace s)))"

fun join :: "string list \<Rightarrow> string \<Rightarrow> string" where
  "join [] sep = []"
| "join [x] sep = x"
| "join (x # y # ys) sep = x @ sep @ join (y # ys) sep"

definition consHead :: "char \<Rightarrow> string list \<Rightarrow> string list" where
  "consHead c ls = (case ls of [] \<Rightarrow> [[c]] | l # ls' \<Rightarrow> (c # l) # ls')"

function split :: "string \<Rightarrow> string \<Rightarrow> string list" where
  \<comment> \<open>\<open>s.split(sep)\<close> for a non-empty separator string\<close>
  "split [] sep = [[]]"
| "split (c # cs) sep =
     (if sep \<noteq> [] \<and> startsWith (c # cs) sep
      then [] # split (drop (length sep) (c # cs)) sep
      else consHead c (split cs sep))"
  by pat_completeness auto
termination
  by (relation "measure (\<lambda>(s, sep). length s)") auto

fun getSubstitution :: "string \<Rightarrow> string \<Rightarrow> string \<Rightarrow> string \<Rightarrow> string" where
  \<comment> \<open>the replacement text of \<open>String.prototype.replaceAll\<close> for a string pattern:
      \<open>$$\<close>, \<open>$&\<close>, \<open>$`\<close> and \<open>$'\<close> are expanded, there are no captures\<close>
  "getSubstitution matched pre post [] = []"
| "getSubstitution matched pre post [c] = [c]"
| "getSubstitution matched pre post (c # d # r) =
     (if c = CHR ''$'' \<and> d = CHR ''$'' then CHR ''$'' # getSubstitution matched pre post r
      else if c = CHR ''$'' \<and> d = CHR ''&'' then matched @ getSubstitution matched pre post r
      else if c = CHR ''$'' \<and> d = CHR 0x60 then pre @ getSubstitution matched pre post r
      else if c = CHR ''$'' \<and> d = CHR 0x27 then post @ getSubstitution matched pre post r
      else c # getSubstitution matched pre post (d # r))"

function replaceAllFrom :: "string \<Rightarrow> string \<Rightarrow> string \<Rightarrow> string \<Rightarrow> string" where
  \<comment> \<open>\<open>pre\<close> is the part of the string that precedes the current position\<close>
  "replaceAllFrom pre [] pat rep = []"
| "replaceAllFrom pre (c # cs) pat rep =
     (if pat \<noteq> [] \<and> startsWith (c # cs) pat
      then getSubstitution pat pre (drop (length pat) (c # cs)) rep
           @ replaceAllFrom (pre @ pat) (drop (length pat) (c # cs)) pat rep
      else c # replaceAllFrom (pre @ [c]) cs pat rep)"
  by pat_completeness auto
termination
  by (relation "measure (\<lambda>(pre, s, pat, rep). length s)") auto

definition replaceAll :: "string \<Rightarrow> string \<Rightarrow> string \<Rightarrow> string" where
  \<comment> \<open>\<open>s.replaceAll(pat, rep)\<close> for a non-empty pattern string\<close>
  "replaceAll s pat rep = replaceAllFrom [] s pat rep"

subsection \<open>Environment and normalisation\<close>

definition DEFAULT_FORMAT :: OutputFormat where
  "DEFAULT_FORMAT = Json"

definition DEFAULT_INPUT :: InputMode where
  "DEFAULT_INPUT = Auto"

definition DEFAULT_MAX_BYTES :: rat where
  "DEFAULT_MAX_BYTES = 1000000"

definition getEnvValue :: "host \<Rightarrow> string \<Rightarrow> string option" where
  "getEnvValue h nm =
     (case procEnv h (''AGENT_EXEC_'' @ nm) of
        Some v \<Rightarrow> Some v
      | None \<Rightarrow> procEnv h (''AGENT_RUN_'' @ nm))"

definition Number :: "host \<Rightarrow> string option \<Rightarrow> jsnum" where
  \<comment> \<open>\<open>Number(undefined)\<close> is \<open>NaN\<close>\<close>
  "Number h v = (case v of None \<Rightarrow> NaN | Some s \<Rightarrow> stringToNumber h s)"

definition normalizeMaxBytes :: "host \<Rightarrow> string option \<Rightarrow> rat" where
  "normalizeMaxBytes h v =
     (case Number h v of
        Fin q \<Rightarrow> if q > 0 then q else DEFAULT_MAX_BYTES
      | _ \<Rightarrow> DEFAULT_MAX_BYTES)"

definition normalizeFormat :: "string option \<Rightarrow> OutputFormat" where
  "normalizeFormat v =
     (if v = Some ''json'' then Json
      else if v = Some ''text'' then Text
      else DEFAULT_FORMAT)"

definition normalizeAgent :: "string option \<Rightarrow> AgentName option" where
  "normalizeAgent v =
     (if v = Some ''codex'' then Some Codex
      else if v = Some ''claude'' then Some Claude
      else if v = Some ''cursor'' then Some Cursor
      else None)"

definition normalizeInput :: "string option \<Rightarrow> InputMode" where
  "normalizeInput v =
     (if v = Some ''auto'' then Auto
      else if v = Some ''arg'' then Arg
      else if v = Some ''stdin'' then Stdin
      else if v = Some ''none'' then NoInput
      else DEFAULT_INPUT)"

definition agentUpper :: "AgentName \<Rightarrow> string" where
  \<comment> \<open>\<open>agent.toUpperCase()\<close>\<close>
  "agentUpper a = (case a of Codex \<Rightarrow> ''CODEX'' | Claude \<Rightarrow> ''CLAUDE'' | Cursor \<Rightarrow> ''CURSOR'')"

definition getModelFlag :: "host \<Rightarrow> AgentName \<Rightarrow> string" where
  "getModelFlag h a =
     orElse (getEnvValue h (''MODEL_FLAG_'' @ agentUpper a))
       (orElse (getEnvValue h ''MODEL_FLAG'') ''--model'')"

definition hasFlag :: "string list \<Rightarrow> string \<Rightarrow> bool" where
  "hasFlag as flag = list_ex (\<lambda>a. a = flag \<or> startsWith a (flag @ ''='')) as"

subsection \<open>The binary classifier\<close>

definition isPrintable :: "byte \<Rightarrow> bool" where
  "isPrintable b = (b = 9 \<or> b = 10 \<or> b = 13 \<or> (b \<ge> 32 \<and> b \<le> 126))"

fun scanSample :: "buffer \<Rightarrow> nat \<Rightarrow> nat option" where
  \<comment> \<open>the loop of \<open>isProbablyBinary\<close>: \<open>None\<close> is the early \<open>return true\<close>, otherwise the
      final value of \<open>nonPrintable\<close>\<close>
  "scanSample [] nonPrintable = Some nonPrintable"
| "scanSample (b # bs) nonPrintable =
     (if b = 0 then None
      else scanSample bs (if \<not> isPrintable b then nonPrintable + 1 else nonPrintable))"

definition isProbablyBinary :: "buffer \<Rightarrow> bool" where
  "isProbablyBinary buf =
     (let sample = take 8000 buf in
      case scanSample sample 0 of
        None \<Rightarrow> True
      | Some nonPrintable \<Rightarrow>
          length sample > 0 \<and> (of_nat nonPrintable :: rat) / of_nat (length sample) > 3 / 10)"

text \<open>
  The source compares the double \<open>nonPrintable / sample.length\<close> with the double \<open>0.3\<close>.
  Both operands of the division are integers up to 8000, so the exact quotient is either
  \<open>3/10\<close>, and then both sides round to the same double, or differs from \<open>3/10\<close> by at least
  \<open>1/80000\<close>, far more than the rounding error, and rounding is monotone: the comparison of
  the doubles has the value of the comparison of the exact rationals, which is what the
  model computes.
\<close>

subsection \<open>Argument parsing\<close>

datatype ParseError = InvalidAgent "string option" | MissingModelValue

text \<open>
  The two \<open>throw\<close> statements of \<open>parseArgs\<close>: \<open>InvalidAgent v\<close> is
  \<open>Error("Invalid agent: v. Use codex, claude, or cursor.")\<close>, where \<open>v\<close> is \<open>argv[i + 1]\<close>,
  and \<open>MissingModelValue\<close> is \<open>Error("Missing value for --model.")\<close>.
\<close>

record ParseState =
  options :: Options
  positional :: "string list"
  passthrough :: "string list"
  inPassthrough :: bool

record ParseResult =
  parsedOptions :: Options
  parsedPrompt :: string
  parsedPassthrough :: "string list"

definition nextArg :: "string list \<Rightarrow> string option" where
  \<comment> \<open>the first element of an array, \<open>undefined\<close> when it is empty: \<open>argv[i + 1]\<close>, given
      the elements after \<open>argv[i]\<close>\<close>
  "nextArg rest = (case rest of [] \<Rightarrow> None | x # _ \<Rightarrow> Some x)"

definition parseStep ::
  "host \<Rightarrow> ParseState \<Rightarrow> string \<Rightarrow> string option \<Rightarrow> ParseError + (ParseState \<times> bool)" where
  \<comment> \<open>the body of the loop of \<open>parseArgs\<close> at \<open>arg = argv[i]\<close>, with \<open>nxt = argv[i + 1]\<close>;
      the boolean tells whether the body ran \<open>i += 1\<close>\<close>
  "parseStep h st arg nxt =
     (if inPassthrough st then Inr (st\<lparr>passthrough := passthrough st @ [arg]\<rparr>, False)
      else if arg = ''--'' then Inr (st\<lparr>inPassthrough := True\<rparr>, False)
      else if arg = ''-h'' \<or> arg = ''--help'' then
        Inr (st\<lparr>options := (options st)\<lparr>helpOpt := True\<rparr>\<rparr>, False)
      else if arg = ''--list'' then
        Inr (st\<lparr>options := (options st)\<lparr>listAgentsOpt := True\<rparr>\<rparr>, False)
      else if arg = ''-a'' \<or> arg = ''--agent'' then
        (case normalizeAgent nxt of
           None \<Rightarrow> Inl (InvalidAgent nxt)
         | Some a \<Rightarrow> Inr (st\<lparr>options := (options st)\<lparr>agent := Some a\<rparr>\<rparr>, True))
      else if arg = ''-d'' \<or> arg = ''--dir'' then
        Inr (st\<lparr>options := (options st)\<lparr>dir := nxt\<rparr>\<rparr>, True)
      else if arg = ''-m'' \<or> arg = ''--model'' \<or> arg = ''--model-id'' then
        (if \<not> truthy nxt then Inl MissingModelValue
         else Inr (st\<lparr>options := (options st)\<lparr>modelId := nxt\<rparr>\<rparr>, True))
      else if arg = ''-f'' \<or> arg = ''--format'' then
        Inr (st\<lparr>options := (options st)\<lparr>format := normalizeFormat nxt\<rparr>\<rparr>, True)
      else if arg = ''--json'' then
        Inr (st\<lparr>options := (options st)\<lparr>format := Json\<rparr>\<rparr>, False)
      else if arg = ''--text'' then
        Inr (st\<lparr>options := (options st)\<lparr>format := Text\<rparr>\<rparr>, False)
      else if arg = ''--input'' then
        Inr (st\<lparr>options := (options st)\<lparr>input := normalizeInput nxt\<rparr>\<rparr>, True)
      else if arg = ''--arg'' then
        Inr (st\<lparr>options := (options st)\<lparr>input := Arg\<rparr>\<rparr>, False)
      else if arg = ''--stdin'' then
        Inr (st\<lparr>options := (options st)\<lparr>input := Stdin\<rparr>\<rparr>, False)
      else if arg = ''--no-input'' then
        Inr (st\<lparr>options := (options st)\<lparr>input := NoInput\<rparr>\<rparr>, False)
      else if arg = ''--max-bytes'' then
        Inr (st\<lparr>options := (options st)\<lparr>maxBytes := normalizeMaxBytes h nxt\<rparr>\<rparr>, True)
      else if arg = ''--no-content'' then
        Inr (st\<lparr>options := (options st)\<lparr>includeContent := False\<rparr>\<rparr>, False)
      else if arg = ''--content'' then
        Inr (st\<lparr>options := (options st)\<lparr>includeContent := True\<rparr>\<rparr>, False)
      else Inr (st\<lparr>positional := positional st @ [arg]\<rparr>, False))"

fun parseLoop :: "host \<Rightarrow> ParseState \<Rightarrow> string list \<Rightarrow> ParseError + ParseState" where
  \<comment> \<open>the \<open>for\<close> loop over \<open>argv\<close>, from index \<open>i\<close> on; the list is \<open>argv.slice(i)\<close>\<close>
  "parseLoop h st [] = Inr st"
| "parseLoop h st (arg # rest) =
     (case parseStep h st arg (nextArg rest) of
        Inl e \<Rightarrow> Inl e
      | Inr (st', skip) \<Rightarrow> parseLoop h st' (if skip then drop 1 rest else rest))"

definition initialOptions :: "host \<Rightarrow> Options" where
  "initialOptions h =
     \<lparr> agent = normalizeAgent (getEnvValue h ''AGENT''),
       dir = Some (procCwd h),
       format = normalizeFormat (getEnvValue h ''FORMAT''),
       input = normalizeInput (getEnvValue h ''INPUT''),
       maxBytes = normalizeMaxBytes h (getEnvValue h ''MAX_BYTES''),
       includeContent = (if truthy (getEnvValue h ''NO_CONTENT'') then False else True),
       listAgentsOpt = False,
       modelId = None,
       helpOpt = False \<rparr>"

definition initialState :: "host \<Rightarrow> ParseState" where
  "initialState h =
     \<lparr> options = initialOptions h, positional = [], passthrough = [], inPassthrough = False \<rparr>"

definition parseArgs :: "host \<Rightarrow> string list \<Rightarrow> ParseError + ParseResult" where
  "parseArgs h argv =
     (case parseLoop h (initialState h) argv of
        Inl e \<Rightarrow> Inl e
      | Inr st \<Rightarrow>
          Inr \<lparr> parsedOptions = options st,
                parsedPrompt = trim (join (positional st) '' ''),
                parsedPassthrough = passthrough st \<rparr>)"

subsection \<open>Agent configurations and interpolation\<close>

definition splitArgs :: "string option \<Rightarrow> string list" where
  "splitArgs v =
     (case v of
        None \<Rightarrow> []
      | Some s \<Rightarrow> if s = [] then [] else filter (\<lambda>p. p \<noteq> []) (map trim (split s '' '')))"

definition buildAgentConfigs :: "host \<Rightarrow> AgentConfig list" where
  "buildAgentConfigs h =
     [ \<lparr> name = Codex, cmd = orElse (getEnvValue h ''CODEX_CMD'') ''codex'',
         args = splitArgs (getEnvValue h ''CODEX_ARGS'') \<rparr>,
       \<lparr> name = Claude, cmd = orElse (getEnvValue h ''CLAUDE_CMD'') ''claude'',
         args = splitArgs (getEnvValue h ''CLAUDE_ARGS'') \<rparr>,
       \<lparr> name = Cursor, cmd = orElse (getEnvValue h ''CURSOR_CMD'') ''agent'',
         args = splitArgs (getEnvValue h ''CURSOR_ARGS'') \<rparr> ]"

definition selectAgent :: "AgentConfig list \<Rightarrow> AgentName option \<Rightarrow> AgentConfig option" where
  "selectAgent configs a =
     (case a of None \<Rightarrow> None | Some n \<Rightarrow> find (\<lambda>c. name c = n) configs)"

definition interpolateArgs :: "string list \<Rightarrow> string \<Rightarrow> string list \<times> bool" where
  \<comment> \<open>the pair is \<open>{ args, usedPrompt }\<close>\<close>
  "interpolateArgs as prompt =
     (map (\<lambda>a. if includesStr a ''{prompt}'' then replaceAll a ''{prompt}'' prompt else a) as,
      list_ex (\<lambda>a. includesStr a ''{prompt}'') as)"

subsection \<open>The process runner\<close>

datatype StdioMode = Inherit | Pipe

record AgentRun =
  spawnCmd :: string
  spawnArgs :: "string list"
  spawnCwd :: string
  spawnStdio :: "StdioMode list"
  stdinWritten :: "string option"
  exitCode :: int
  returnedArgs :: "string list"

text \<open>
  \<open>runAgent\<close> spawns one child and resolves when the child closes. The model takes the
  value \<open>code\<close> that the \<open>close\<close> event delivers (\<open>None\<close> for \<open>null\<close>: the child ended
  without an exit code) and returns, in one record, what was done to the child (the
  arguments of \<open>spawn\<close> and what was written to its standard input, \<open>None\<close> when nothing was)
  and what the function returns (\<open>exitCode\<close> and \<open>args\<close>, here \<open>returnedArgs\<close>).
\<close>

definition runAgent ::
  "host \<Rightarrow> AgentConfig \<Rightarrow> string \<Rightarrow> InputMode \<Rightarrow> string \<Rightarrow> string list \<Rightarrow> OutputFormat
     \<Rightarrow> string option \<Rightarrow> int option \<Rightarrow> AgentRun" where
  "runAgent h config prompt inputMode cwd passthru fmt model code =
     (let interpolated = interpolateArgs (args config) prompt;
          usedPrompt = snd interpolated;
          modelFlag = getModelFlag h (name config);
          baseArgs0 = fst interpolated @ passthru;
          baseArgs =
            (case model of
               None \<Rightarrow> baseArgs0
             | Some m \<Rightarrow>
                 if m \<noteq> [] \<and> \<not> hasFlag baseArgs0 modelFlag
                 then baseArgs0 @ [modelFlag, m] else baseArgs0);
          (stdinMode, finalArgs, sendPrompt) =
            (if prompt \<noteq> [] then
               (if inputMode = Arg then
                  (Inherit, if \<not> usedPrompt then baseArgs @ [prompt] else baseArgs, False)
                else if inputMode = Stdin then (Pipe, baseArgs, True)
                else if inputMode = Auto then
                  (Inherit, if \<not> usedPrompt then baseArgs @ [prompt] else baseArgs, False)
                else (Inherit, baseArgs, False))
             else (Inherit, baseArgs, False));
          usePipes = (fmt = Json \<or> stdinMode = Pipe);
          stdio = (if usePipes then [stdinMode, Pipe, Pipe] else [Inherit, Inherit, Inherit])
      in \<lparr> spawnCmd = cmd config,
           spawnArgs = finalArgs,
           spawnCwd = cwd,
           spawnStdio = stdio,
           stdinWritten = (if sendPrompt \<and> take 1 stdio = [Pipe] then Some prompt else None),
           exitCode = (case code of None \<Rightarrow> 0 | Some c \<Rightarrow> c),
           returnedArgs = finalArgs \<rparr>)"

subsection \<open>The change collector\<close>

fun splitLines :: "string \<Rightarrow> string list" where
  \<comment> \<open>\<open>stdout.split(/\r?\n/)\<close>\<close>
  "splitLines [] = [[]]"
| "splitLines [c] = (if c = CHR 0x0A then [[], []] else [[c]])"
| "splitLines (c # d # cs) =
     (if c = CHR 0x0A then [] # splitLines (d # cs)
      else if c = CHR 0x0D \<and> d = CHR 0x0A then [] # splitLines cs
      else consHead c (splitLines (d # cs)))"

definition pop :: "'a list \<Rightarrow> 'a option" where
  \<comment> \<open>the value of \<open>xs.pop()\<close>: the last element, \<open>undefined\<close> on the empty array\<close>
  "pop xs = (case rev xs of [] \<Rightarrow> None | x # _ \<Rightarrow> Some x)"

definition truncToInt :: "rat \<Rightarrow> int" where
  \<comment> \<open>the integer part of a finite number, rounding towards zero\<close>
  "truncToInt q = (if q \<ge> 0 then \<lfloor>q\<rfloor> else \<lceil>q\<rceil>)"

definition subarrayTo :: "buffer \<Rightarrow> rat \<Rightarrow> buffer" where
  \<comment> \<open>\<open>data.subarray(0, e)\<close> for a finite \<open>e\<close>: a negative end counts from the end of the buffer\<close>
  "subarrayTo data e =
     (let r = truncToInt e;
          n = int (length data);
          final = (if r < 0 then max (n + r) 0 else min r n)
      in take (nat final) data)"

definition changeOfLine :: "host \<Rightarrow> string \<Rightarrow> rat \<Rightarrow> bool \<Rightarrow> string \<Rightarrow> Change option" where
  \<comment> \<open>the body of the loop over the lines of the status output: \<open>None\<close> is \<open>continue\<close>,
      otherwise the record pushed on \<open>changes\<close>\<close>
  "changeOfLine h cwd cap withContent line =
     (let st = trim (take 2 line);
          file0 = trim (drop 3 line);
          file = (if includesStr file0 '' -> ''
                  then orElse (pop (split file0 '' -> '')) file0 else file0)
      in if file = [] then None
         else
           let change = \<lparr> path = file, status = st, content = None, truncated = None,
                          binary = None \<rparr>
           in Some
             (if withContent then
                (case readFile h (pathResolve h cwd file) of
                   None \<Rightarrow> change
                 | Some data \<Rightarrow>
                     if isProbablyBinary data then change\<lparr>binary := Some True\<rparr>
                     else if of_nat (length data) > cap then
                       change\<lparr>content := Some (utf8 h (subarrayTo data cap)),
                              truncated := Some True\<rparr>
                     else change\<lparr>content := Some (utf8 h data)\<rparr>)
              else change))"

fun collectChanges :: "host \<Rightarrow> string \<Rightarrow> rat \<Rightarrow> bool \<Rightarrow> string list \<Rightarrow> Change list" where
  "collectChanges h cwd cap withContent [] = []"
| "collectChanges h cwd cap withContent (line # ls) =
     (case changeOfLine h cwd cap withContent line of
        None \<Rightarrow> collectChanges h cwd cap withContent ls
      | Some c \<Rightarrow> c # collectChanges h cwd cap withContent ls)"

definition getGitChanges :: "host \<Rightarrow> string \<Rightarrow> rat \<Rightarrow> bool \<Rightarrow> Change list" where
  "getGitChanges h cwd cap withContent =
     (let (stdout, code) = gitStatus h cwd;
          exitCode = (case code of None \<Rightarrow> 1 | Some c \<Rightarrow> c)
      in if exitCode \<noteq> 0 then []
         else collectChanges h cwd cap withContent
                (filter (\<lambda>l. l \<noteq> []) (splitLines stdout)))"

text \<open>
  The \<open>try\<close> block that reads a file catches every exception, so a failing read leaves the
  record without content; \<open>utf8\<close> is taken to be total.
\<close>

subsection \<open>The main function\<close>

record Output =
  out_ok :: bool
  out_agent :: AgentName
  out_model :: "string option"
  out_command :: string
  out_args :: "string list"
  out_cwd :: string
  out_exitCode :: int
  out_changes :: "Change list"

datatype Outcome =
    SkillsForwarded "string list"
  | ParseThrew ParseError
  | UsagePrinted
  | AgentsListed
  | MissingAgent
  | UnknownAgent
  | AgentNotFound string
  | ResolveThrew
  | JsonPrinted Output
  | TextFinished "int option"

text \<open>
  \<open>Output\<close> is the object that \<open>main\<close> prints in JSON mode, its fields prefixed with
  \<open>out_\<close>. \<open>Outcome\<close> lists the ways \<open>main\<close> ends: the \<open>skills\<close> form, an error thrown by
  \<open>parseArgs\<close>, the usage text, the list of agents, the three configuration errors,
  \<open>path.resolve\<close> throwing on an undefined directory, the JSON record, and text mode, with
  the exit code named in the diagnostic line when there is one. As in \<open>runAgent\<close>, \<open>code\<close> is
  what the \<open>close\<close> event of the agent's process delivers.
\<close>

definition main :: "host \<Rightarrow> string list \<Rightarrow> int option \<Rightarrow> Outcome" where
  "main h rawArgs code =
     (if nextArg rawArgs = Some ''skills'' then SkillsForwarded (drop 1 rawArgs)
      else
        (case parseArgs h rawArgs of
           Inl e \<Rightarrow> ParseThrew e
         | Inr parsed \<Rightarrow>
             (let opts = parsedOptions parsed
              in if helpOpt opts then UsagePrinted
                 else if listAgentsOpt opts then AgentsListed
                 else if agent opts = None then MissingAgent
                 else
                   (case selectAgent (buildAgentConfigs h) (agent opts) of
                      None \<Rightarrow> UnknownAgent
                    | Some selected \<Rightarrow>
                        (if \<not> commandExists h (cmd selected) then AgentNotFound (cmd selected)
                         else
                           (case dir opts of
                              None \<Rightarrow> ResolveThrew
                            | Some d \<Rightarrow>
                                (let cwd = pathResolve h (procCwd h) d;
                                     runResult =
                                       runAgent h selected (parsedPrompt parsed) (input opts) cwd
                                         (parsedPassthrough parsed) (format opts) (modelId opts)
                                         code
                                 in if format opts = Json then
                                      JsonPrinted
                                        \<lparr> out_ok = (exitCode runResult = 0),
                                          out_agent = name selected,
                                          out_model = modelId opts,
                                          out_command = cmd selected,
                                          out_args = returnedArgs runResult,
                                          out_cwd = cwd,
                                          out_exitCode = exitCode runResult,
                                          out_changes =
                                            getGitChanges h cwd (maxBytes opts)
                                              (includeContent opts) \<rparr>
                                    else if exitCode runResult \<noteq> 0
                                      then TextFinished (Some (exitCode runResult))
                                    else TextFinished None)))))))"

section \<open>Notions used in the statements\<close>

text \<open>
  The definitions of this section are not translations of source functions: they say, in
  the words of the properties stated below, which tokens of an invocation are options,
  values of options, positional tokens and passthrough tokens, and they fix one concrete
  host for the examples.
\<close>

subsection \<open>The tokens of an invocation\<close>

definition isAgentFlag :: "string \<Rightarrow> bool" where
  "isAgentFlag a = (a = ''-a'' \<or> a = ''--agent'')"

definition isModelFlag :: "string \<Rightarrow> bool" where
  "isModelFlag a = (a = ''-m'' \<or> a = ''--model'' \<or> a = ''--model-id'')"

definition takesValue :: "string \<Rightarrow> bool" where
  "takesValue a = (a \<in> set [''-a'', ''--agent'', ''-d'', ''--dir'', ''-m'', ''--model'', ''--model-id'',
       ''-f'', ''--format'', ''--input'', ''--max-bytes''])"

definition isSwitch :: "string \<Rightarrow> bool" where
  "isSwitch a = (a \<in> set [''-h'', ''--help'', ''--list'', ''--json'', ''--text'', ''--arg'', ''--stdin'',
       ''--no-input'', ''--no-content'', ''--content''])"

fun scannedTokens :: "string list \<Rightarrow> (string \<times> string option) list" where
  "scannedTokens [] = []"
| "scannedTokens (a # rest) =
     (if a = ''--'' then []
      else (a, nextArg rest) # scannedTokens (if takesValue a then drop 1 rest else rest))"

fun passthroughTokens :: "string list \<Rightarrow> string list" where
  "passthroughTokens [] = []"
| "passthroughTokens (a # rest) =
     (if a = ''--'' then rest
      else passthroughTokens (if takesValue a then drop 1 rest else rest))"

definition positionalTokens :: "string list \<Rightarrow> string list" where
  "positionalTokens argv =
     map fst (filter (\<lambda>(a, nxt). \<not> takesValue a \<and> \<not> isSwitch a) (scannedTokens argv))"

definition raisesAt :: "string \<times> string option \<Rightarrow> bool" where
  "raisesAt p = (case p of (a, nxt) \<Rightarrow>
      (isModelFlag a \<and> (nxt = None \<or> nxt = Some [])) \<or>
      (isAgentFlag a \<and> nxt \<noteq> Some ''codex'' \<and> nxt \<noteq> Some ''claude'' \<and> nxt \<noteq> Some ''cursor''))"

text \<open>
  \<open>takesValue\<close> holds of the options that are followed by a value, \<open>isSwitch\<close> of the
  options that are not. \<open>scannedTokens argv\<close> lists the tokens that are read as an option
  or as a positional token, each with the token that follows it in \<open>argv\<close> (\<open>None\<close> at the
  end): it starts at the first token, steps over the value of an option that takes one,
  and stops at the delimiter \<open>--\<close>. \<open>passthroughTokens argv\<close> are the tokens after that
  delimiter and \<open>positionalTokens argv\<close> the scanned tokens that are not options.
  \<open>raisesAt (a, nxt)\<close> holds when \<open>a\<close> is a model option followed by no token or by the
  empty token, or an agent option followed by no token or by a token that is not the name
  of an agent.
\<close>

subsection \<open>The parts of the final argument list\<close>

definition assembledArgs :: "AgentConfig \<Rightarrow> string \<Rightarrow> string list \<Rightarrow> string list" where
  "assembledArgs config prompt passthru = fst (interpolateArgs (args config) prompt) @ passthru"

definition appendedModelPair ::
  "host \<Rightarrow> AgentConfig \<Rightarrow> string \<Rightarrow> string list \<Rightarrow> string option \<Rightarrow> string list" where
  "appendedModelPair h config prompt passthru model =
     (case model of
        None \<Rightarrow> []
      | Some m \<Rightarrow>
          if m \<noteq> [] \<and> \<not> hasFlag (assembledArgs config prompt passthru) (getModelFlag h (name config))
          then [getModelFlag h (name config), m] else [])"

definition appendedPrompt :: "AgentConfig \<Rightarrow> string \<Rightarrow> InputMode \<Rightarrow> string list" where
  "appendedPrompt config prompt inputMode =
     (if prompt \<noteq> [] \<and> (inputMode = Arg \<or> inputMode = Auto) \<and>
         \<not> snd (interpolateArgs (args config) prompt)
      then [prompt] else [])"

definition flagCount :: "string list \<Rightarrow> string \<Rightarrow> nat" where
  "flagCount as flag = length (filter (\<lambda>a. a = flag \<or> startsWith a (flag @ ''='')) as)"

text \<open>
  \<open>assembledArgs\<close> is the interpolated template followed by the passthrough tokens,
  \<open>appendedModelPair\<close> the model flag and its value when \<open>runAgent\<close> appends them (the empty
  list otherwise), \<open>appendedPrompt\<close> the prompt when \<open>runAgent\<close> appends it as an argument,
  and \<open>flagCount as flag\<close> the number of tokens of \<open>as\<close> that are \<open>flag\<close> or start with
  \<open>flag=\<close>.
\<close>

subsection \<open>A host for the examples\<close>

definition exampleHost :: host where
  "exampleHost =
     \<lparr> procEnv = (\<lambda>v. if v = ''AGENT_EXEC_AGENT'' then Some ''gpt''
                     else if v = ''AGENT_RUN_CLAUDE_ARGS'' then Some ''-p {prompt}''
                     else None),
       procCwd = ''/repo'',
       stringToNumber = (\<lambda>s. if s = ''2'' then Fin 2 else NaN),
       commandExists = (\<lambda>c. True),
       pathResolve = (\<lambda>cwd p. if startsWith p ''/'' then p else cwd @ ''/'' @ p),
       gitStatus = (\<lambda>cwd. if cwd = ''/repo'' then ('' M a.txt\<newline>?? b.bin\<newline>'', Some 0)
                            else ([], Some 128)),
       readFile = (\<lambda>p. if p = ''/repo/a.txt'' then Some [104, 105, 10]
                        else if p = ''/repo/b.bin'' then Some [1] else None),
       utf8 = map (\<lambda>b. char_of (unat b)) \<rparr>"

text \<open>
  In \<open>exampleHost\<close> the environment names an agent that does not exist and gives the
  agent \<open>claude\<close> a template with the placeholder, the working
  directory \<open>/repo\<close> is a repository with a changed text file and a changed one-byte file,
  every other directory is not a repository, \<open>Number\<close> knows the string \<open>2\<close> only, and
  files hold ASCII text.
\<close>

section \<open>Properties\<close>

subsection \<open>Auxiliary facts\<close>

lemma scanSample_None: "scanSample bs n = None \<longleftrightarrow> 0 \<in> set bs"
  by (induction bs arbitrary: n) auto

lemma scanSample_Some:
  "0 \<notin> set bs \<Longrightarrow> scanSample bs n = Some (n + length (filter (\<lambda>b. \<not> isPrintable b) bs))"
  by (induction bs arbitrary: n) auto

lemma isPrintable_unat: "isPrintable b \<longleftrightarrow> unat b \<in> {9, 10, 13} \<union> {32..126}"
  unfolding isPrintable_def
  by (auto simp: word_le_nat_alt word_unat_eq_iff)

lemma ratio_exceeds_three_tenths:
  fixes n m :: nat
  assumes "m > 0"
  shows "((of_nat n :: rat) / of_nat m > 3 / 10) = (10 * n > 3 * m)"
proof -
  from assms have "((of_nat n :: rat) / of_nat m > 3 / 10) = ((3::rat) * of_nat m < 10 * of_nat n)"
    by (simp add: field_simps)
  also have "\<dots> = ((of_nat (3 * m) :: rat) < of_nat (10 * n))"
    by simp
  also have "\<dots> = (3 * m < 10 * n)"
    by (simp only: of_nat_less_iff)
  finally show ?thesis .
qed

lemma parseLoop_inPassthrough:
  "inPassthrough st \<Longrightarrow> parseLoop h st xs = Inr (st\<lparr>passthrough := passthrough st @ xs\<rparr>)"
  by (induction xs arbitrary: st) (simp_all add: parseStep_def)

lemma parseStep_delimiter:
  "\<not> inPassthrough st \<Longrightarrow> parseStep h st ''--'' nxt = Inr (st\<lparr>inPassthrough := True\<rparr>, False)"
  by (simp add: parseStep_def)


lemma token_cases:
  obtains "a = ''--''"
  | "a = ''-h'' \<or> a = ''--help''"
  | "a = ''--list''"
  | "a = ''-a'' \<or> a = ''--agent''"
  | "a = ''-d'' \<or> a = ''--dir''"
  | "a = ''-m'' \<or> a = ''--model'' \<or> a = ''--model-id''"
  | "a = ''-f'' \<or> a = ''--format''"
  | "a = ''--json''"
  | "a = ''--text''"
  | "a = ''--input''"
  | "a = ''--arg''"
  | "a = ''--stdin''"
  | "a = ''--no-input''"
  | "a = ''--max-bytes''"
  | "a = ''--no-content''"
  | "a = ''--content''"
  | "a \<notin> set [''--'', ''-h'', ''--help'', ''--list'', ''-a'', ''--agent'', ''-d'', ''--dir'', ''-m'', ''--model'', ''--model-id'', ''-f'', ''--format'', ''--json'', ''--text'', ''--input'', ''--arg'', ''--stdin'', ''--no-input'', ''--max-bytes'', ''--no-content'', ''--content'']"
  by (simp only: list.set insert_iff empty_iff) metis






lemma normalizeAgent_None_iff:
  "normalizeAgent v = None \<longleftrightarrow> v \<noteq> Some ''codex'' \<and> v \<noteq> Some ''claude'' \<and> v \<noteq> Some ''cursor''"
  by (simp add: normalizeAgent_def)

lemma truthy_iff: "truthy v \<longleftrightarrow> v \<noteq> None \<and> v \<noteq> Some []"
  by (cases v) (simp_all add: truthy_def)

lemma parseStep_help:
  "\<not> inPassthrough st \<Longrightarrow> a = ''-h'' \<or> a = ''--help'' \<Longrightarrow>
   parseStep h st a nxt = Inr (st\<lparr>options := (options st)\<lparr>helpOpt := True\<rparr>\<rparr>, False)"
  by (auto simp: parseStep_def)

lemma parseStep_list:
  "\<not> inPassthrough st \<Longrightarrow> a = ''--list'' \<Longrightarrow>
   parseStep h st a nxt = Inr (st\<lparr>options := (options st)\<lparr>listAgentsOpt := True\<rparr>\<rparr>, False)"
  by (auto simp: parseStep_def)

lemma parseStep_agent:
  "\<not> inPassthrough st \<Longrightarrow> a = ''-a'' \<or> a = ''--agent'' \<Longrightarrow>
   parseStep h st a nxt =
     (case normalizeAgent nxt of
        None \<Rightarrow> Inl (InvalidAgent nxt)
      | Some ag \<Rightarrow> Inr (st\<lparr>options := (options st)\<lparr>agent := Some ag\<rparr>\<rparr>, True))"
  by (auto simp: parseStep_def)

lemma parseStep_dir:
  "\<not> inPassthrough st \<Longrightarrow> a = ''-d'' \<or> a = ''--dir'' \<Longrightarrow>
   parseStep h st a nxt = Inr (st\<lparr>options := (options st)\<lparr>dir := nxt\<rparr>\<rparr>, True)"
  by (auto simp: parseStep_def)

lemma parseStep_model:
  "\<not> inPassthrough st \<Longrightarrow> a = ''-m'' \<or> a = ''--model'' \<or> a = ''--model-id'' \<Longrightarrow>
   parseStep h st a nxt =
     (if \<not> truthy nxt then Inl MissingModelValue
      else Inr (st\<lparr>options := (options st)\<lparr>modelId := nxt\<rparr>\<rparr>, True))"
  by (auto simp: parseStep_def)

lemma parseStep_format:
  "\<not> inPassthrough st \<Longrightarrow> a = ''-f'' \<or> a = ''--format'' \<Longrightarrow>
   parseStep h st a nxt = Inr (st\<lparr>options := (options st)\<lparr>format := normalizeFormat nxt\<rparr>\<rparr>, True)"
  by (auto simp: parseStep_def)

lemma parseStep_json:
  "\<not> inPassthrough st \<Longrightarrow> a = ''--json'' \<Longrightarrow>
   parseStep h st a nxt = Inr (st\<lparr>options := (options st)\<lparr>format := Json\<rparr>\<rparr>, False)"
  by (auto simp: parseStep_def)

lemma parseStep_text:
  "\<not> inPassthrough st \<Longrightarrow> a = ''--text'' \<Longrightarrow>
   parseStep h st a nxt = Inr (st\<lparr>options := (options st)\<lparr>format := Text\<rparr>\<rparr>, False)"
  by (auto simp: parseStep_def)

lemma parseStep_input:
  "\<not> inPassthrough st \<Longrightarrow> a = ''--input'' \<Longrightarrow>
   parseStep h st a nxt = Inr (st\<lparr>options := (options st)\<lparr>input := normalizeInput nxt\<rparr>\<rparr>, True)"
  by (auto simp: parseStep_def)

lemma parseStep_arg:
  "\<not> inPassthrough st \<Longrightarrow> a = ''--arg'' \<Longrightarrow>
   parseStep h st a nxt = Inr (st\<lparr>options := (options st)\<lparr>input := Arg\<rparr>\<rparr>, False)"
  by (auto simp: parseStep_def)

lemma parseStep_stdin:
  "\<not> inPassthrough st \<Longrightarrow> a = ''--stdin'' \<Longrightarrow>
   parseStep h st a nxt = Inr (st\<lparr>options := (options st)\<lparr>input := Stdin\<rparr>\<rparr>, False)"
  by (auto simp: parseStep_def)

lemma parseStep_no_input:
  "\<not> inPassthrough st \<Longrightarrow> a = ''--no-input'' \<Longrightarrow>
   parseStep h st a nxt = Inr (st\<lparr>options := (options st)\<lparr>input := NoInput\<rparr>\<rparr>, False)"
  by (auto simp: parseStep_def)

lemma parseStep_max_bytes:
  "\<not> inPassthrough st \<Longrightarrow> a = ''--max-bytes'' \<Longrightarrow>
   parseStep h st a nxt =
     Inr (st\<lparr>options := (options st)\<lparr>maxBytes := normalizeMaxBytes h nxt\<rparr>\<rparr>, True)"
  by (auto simp: parseStep_def)

lemma parseStep_no_content:
  "\<not> inPassthrough st \<Longrightarrow> a = ''--no-content'' \<Longrightarrow>
   parseStep h st a nxt = Inr (st\<lparr>options := (options st)\<lparr>includeContent := False\<rparr>\<rparr>, False)"
  by (auto simp: parseStep_def)

lemma parseStep_content:
  "\<not> inPassthrough st \<Longrightarrow> a = ''--content'' \<Longrightarrow>
   parseStep h st a nxt = Inr (st\<lparr>options := (options st)\<lparr>includeContent := True\<rparr>\<rparr>, False)"
  by (auto simp: parseStep_def)

lemma parseStep_other: "a \<notin> set [''--'', ''-h'', ''--help'', ''--list'', ''-a'', ''--agent'', ''-d'', ''--dir'', ''-m'', ''--model'', ''--model-id'', ''-f'', ''--format'', ''--json'', ''--text'', ''--input'', ''--arg'', ''--stdin'', ''--no-input'', ''--max-bytes'', ''--no-content'', ''--content''] \<Longrightarrow> \<not> inPassthrough st \<Longrightarrow> parseStep h st a nxt = Inr (st\<lparr>positional := positional st @ [a]\<rparr>, False)"
  by (simp add: parseStep_def)


lemmas parseStep_eqs =
  parseStep_help parseStep_list parseStep_agent parseStep_dir parseStep_model parseStep_format
  parseStep_json parseStep_text parseStep_input parseStep_arg parseStep_stdin parseStep_no_input
  parseStep_max_bytes parseStep_no_content parseStep_content parseStep_other

lemma parseStep_Inr:
  assumes "\<not> inPassthrough st" "a \<noteq> ''--''" "parseStep h st a nxt = Inr (st', skip)"
  shows "skip = takesValue a \<and> \<not> inPassthrough st' \<and> passthrough st' = passthrough st \<and>
         positional st' = positional st @ (if \<not> takesValue a \<and> \<not> isSwitch a then [a] else []) \<and>
         \<not> raisesAt (a, nxt) \<and>
         (\<not> isAgentFlag a \<longrightarrow> agent (options st') = agent (options st))"
  using assms
  by (cases a rule: token_cases)
     (auto simp: parseStep_eqs takesValue_def isSwitch_def raisesAt_def isAgentFlag_def isModelFlag_def
        truthy_iff normalizeAgent_None_iff [symmetric]
      split: option.splits if_splits)

lemma parseStep_Inl:
  assumes "\<not> inPassthrough st" "parseStep h st a nxt = Inl e"
  shows "raisesAt (a, nxt) \<and>
         (e = MissingModelValue \<and> isModelFlag a \<or> e = InvalidAgent nxt \<and> isAgentFlag a)"
  using assms
  by (cases a rule: token_cases)
     (auto simp: parseStep_eqs parseStep_delimiter raisesAt_def isAgentFlag_def isModelFlag_def
        truthy_iff normalizeAgent_None_iff [symmetric]
      split: option.splits if_splits)

lemma positionalTokens_Nil: "positionalTokens [] = []"
  by (simp add: positionalTokens_def)

lemma positionalTokens_Cons:
  "positionalTokens (a # rest) =
     (if a = ''--'' then []
      else (if \<not> takesValue a \<and> \<not> isSwitch a then [a] else [])
           @ positionalTokens (if takesValue a then drop 1 rest else rest))"
  by (simp add: positionalTokens_def)

lemma parseLoop_Inr:
  "\<not> inPassthrough st \<Longrightarrow> parseLoop h st argv = Inr st' \<Longrightarrow>
   positional st' = positional st @ positionalTokens argv \<and>
   passthrough st' = passthrough st @ passthroughTokens argv \<and>
   \<not> list_ex raisesAt (scannedTokens argv) \<and>
   (\<not> list_ex (\<lambda>p. isAgentFlag (fst p)) (scannedTokens argv) \<longrightarrow> agent (options st') = agent (options st))"
proof (induction h st argv arbitrary: st' rule: parseLoop.induct)
  case (1 h st)
  then show ?case
    by (simp add: positionalTokens_Nil)
next
  case (2 h st arg rest)
  show ?case
  proof (cases "arg = ''--''")
    case True
    with "2.prems" have "st' = st\<lparr>inPassthrough := True, passthrough := passthrough st @ rest\<rparr>"
      by (simp add: parseStep_delimiter parseLoop_inPassthrough)
    with True show ?thesis
      by (simp add: positionalTokens_Cons)
  next
    case False
    from "2.prems" obtain st1 skip where step: "parseStep h st arg (nextArg rest) = Inr (st1, skip)"
      and loop: "parseLoop h st1 (if skip then drop 1 rest else rest) = Inr st'"
      by (auto split: sum.splits)
    note facts = parseStep_Inr [OF "2.prems"(1) False step]
    from facts have np: "\<not> inPassthrough st1" and sk: "skip = takesValue arg"
      by simp_all
    note ih = "2.IH" [OF step refl np loop]
    from ih facts False sk show ?thesis
      by (simp add: positionalTokens_Cons)
  qed
qed

lemma parseLoop_Inl:
  "\<not> inPassthrough st \<Longrightarrow> parseLoop h st argv = Inl e \<Longrightarrow> list_ex raisesAt (scannedTokens argv)"
proof (induction h st argv rule: parseLoop.induct)
  case (1 h st)
  then show ?case by simp
next
  case (2 h st arg rest)
  show ?case
  proof (cases "arg = ''--''")
    case True
    with "2.prems" show ?thesis
      by (simp add: parseStep_delimiter parseLoop_inPassthrough)
  next
    case False
    show ?thesis
    proof (cases "parseStep h st arg (nextArg rest)")
      case (Inl e')
      from parseStep_Inl [OF "2.prems"(1) Inl] False show ?thesis
        by simp
    next
      case (Inr p)
      obtain st1 skip where p: "p = (st1, skip)"
        by (cases p)
      note step = Inr [unfolded p]
      note facts = parseStep_Inr [OF "2.prems"(1) False step]
      from facts have np: "\<not> inPassthrough st1" and sk: "skip = takesValue arg"
        by simp_all
      from "2.prems"(2) step have loop: "parseLoop h st1 (if skip then drop 1 rest else rest) = Inl e"
        by simp
      from "2.IH" [OF step refl np loop] False sk show ?thesis
        by simp
    qed
  qed
qed

lemma initialState_facts:
  "\<not> inPassthrough (initialState h)" "positional (initialState h) = []"
  "passthrough (initialState h) = []" "options (initialState h) = initialOptions h"
  by (simp_all add: initialState_def)

lemma parseArgs_Inr:
  assumes "parseArgs h argv = Inr r"
  shows "parsedPrompt r = trim (join (positionalTokens argv) '' '') \<and>
         parsedPassthrough r = passthroughTokens argv \<and>
         \<not> list_ex raisesAt (scannedTokens argv) \<and>
         (\<not> list_ex (\<lambda>p. isAgentFlag (fst p)) (scannedTokens argv) \<longrightarrow>
            agent (parsedOptions r) = normalizeAgent (getEnvValue h ''AGENT''))"
proof -
  from assms obtain st where loop: "parseLoop h (initialState h) argv = Inr st"
    and r: "r = \<lparr> parsedOptions = options st, parsedPrompt = trim (join (positional st) '' ''),
                   parsedPassthrough = passthrough st \<rparr>"
    by (auto simp: parseArgs_def split: sum.splits)
  from parseLoop_Inr [OF initialState_facts(1) loop] r show ?thesis
    by (simp add: initialState_facts initialOptions_def)
qed

lemma parseArgs_Inl:
  assumes "parseArgs h argv = Inl e"
  shows "list_ex raisesAt (scannedTokens argv)"
proof -
  from assms have "parseLoop h (initialState h) argv = Inl e"
    by (auto simp: parseArgs_def split: sum.splits)
  from parseLoop_Inl [OF initialState_facts(1) this] show ?thesis .
qed

lemma parseArgs_throws_iff:
  "(\<exists>e. parseArgs h argv = Inl e) \<longleftrightarrow> list_ex raisesAt (scannedTokens argv)"
proof
  assume "\<exists>e. parseArgs h argv = Inl e"
  then show "list_ex raisesAt (scannedTokens argv)"
    by (auto dest: parseArgs_Inl)
next
  assume ex: "list_ex raisesAt (scannedTokens argv)"
  show "\<exists>e. parseArgs h argv = Inl e"
  proof (cases "parseArgs h argv")
    case (Inl e)
    then show ?thesis by blast
  next
    case (Inr r)
    from parseArgs_Inr [OF Inr] ex show ?thesis by simp
  qed
qed

lemma parseLoop_Inl_kind:
  "\<not> inPassthrough st \<Longrightarrow> parseLoop h st argv = Inl e \<Longrightarrow>
   e = MissingModelValue \<or> (\<exists>v. e = InvalidAgent v \<and> normalizeAgent v = None)"
proof (induction h st argv rule: parseLoop.induct)
  case (1 h st)
  then show ?case by simp
next
  case (2 h st arg rest)
  show ?case
  proof (cases "arg = ''--''")
    case True
    with "2.prems" show ?thesis
      by (simp add: parseStep_delimiter parseLoop_inPassthrough)
  next
    case False
    show ?thesis
    proof (cases "parseStep h st arg (nextArg rest)")
      case (Inl e')
      with "2.prems"(2) have "e' = e" by simp
      with parseStep_Inl [OF "2.prems"(1) Inl] show ?thesis
        by (auto simp: raisesAt_def isAgentFlag_def isModelFlag_def normalizeAgent_None_iff)
    next
      case (Inr p)
      obtain st1 skip where p: "p = (st1, skip)"
        by (cases p)
      note step = Inr [unfolded p]
      from parseStep_Inr [OF "2.prems"(1) False step] have np: "\<not> inPassthrough st1"
        by simp
      from "2.prems"(2) step have loop: "parseLoop h st1 (if skip then drop 1 rest else rest) = Inl e"
        by simp
      from "2.IH" [OF step refl np loop] show ?thesis .
    qed
  qed
qed

lemma parseLoop_format_fallback:
  assumes "\<not> inPassthrough st" "a = ''-f'' \<or> a = ''--format''"
    "nextArg rest \<noteq> Some ''json''" "nextArg rest \<noteq> Some ''text''"
  shows "parseLoop h st (a # rest)
         = parseLoop h (st\<lparr>options := (options st)\<lparr>format := DEFAULT_FORMAT\<rparr>\<rparr>) (drop 1 rest)"
  using assms by (simp add: parseStep_format normalizeFormat_def)

lemma parseLoop_input_fallback:
  assumes "\<not> inPassthrough st" "a = ''--input''"
    "nextArg rest \<noteq> Some ''auto''" "nextArg rest \<noteq> Some ''arg''"
    "nextArg rest \<noteq> Some ''stdin''" "nextArg rest \<noteq> Some ''none''"
  shows "parseLoop h st (a # rest)
         = parseLoop h (st\<lparr>options := (options st)\<lparr>input := DEFAULT_INPUT\<rparr>\<rparr>) (drop 1 rest)"
  using assms by (simp add: parseStep_input normalizeInput_def)

lemma parseLoop_max_bytes_fallback:
  assumes "\<not> inPassthrough st" "a = ''--max-bytes''"
    "nextArg rest = None \<or> (\<forall>q. Number h (nextArg rest) = Fin q \<longrightarrow> q \<le> 0)"
  shows "parseLoop h st (a # rest)
         = parseLoop h (st\<lparr>options := (options st)\<lparr>maxBytes := DEFAULT_MAX_BYTES\<rparr>\<rparr>) (drop 1 rest)"
proof -
  from assms(3) have "normalizeMaxBytes h (nextArg rest) = DEFAULT_MAX_BYTES"
    by (auto simp: normalizeMaxBytes_def Number_def split: jsnum.splits)
  with assms(1,2) show ?thesis
    by (simp add: parseStep_max_bytes)
qed

lemma parseLoop_dir_missing:
  assumes "\<not> inPassthrough st" "a = ''-d'' \<or> a = ''--dir''"
  shows "parseLoop h st [a] = Inr (st\<lparr>options := (options st)\<lparr>dir := None\<rparr>\<rparr>)"
  using assms by (simp add: parseStep_dir nextArg_def)


lemma runAgent_spawnArgs:
  "spawnArgs (runAgent h config prompt inputMode cwd passthru fmt model code)
     = assembledArgs config prompt passthru
       @ appendedModelPair h config prompt passthru model
       @ appendedPrompt config prompt inputMode"
  by (cases model; cases inputMode)
     (simp_all add: runAgent_def Let_def assembledArgs_def appendedModelPair_def appendedPrompt_def)

lemma runAgent_stdinWritten:
  "stdinWritten (runAgent h config prompt inputMode cwd passthru fmt model code)
     = (if prompt \<noteq> [] \<and> inputMode = Stdin then Some prompt else None)"
  by (cases inputMode) (simp_all add: runAgent_def Let_def)

lemma interpolateArgs_no_placeholder:
  "\<not> list_ex (\<lambda>a. includesStr a ''{prompt}'') as \<Longrightarrow> interpolateArgs as prompt = (as, False)"
  by (induction as) (simp_all add: interpolateArgs_def)

lemma flagCount_append: "flagCount (xs @ ys) flag = flagCount xs flag + flagCount ys flag"
  by (simp add: flagCount_def)

lemma runAgent_exitCode:
  "exitCode (runAgent h config prompt inputMode cwd passthru fmt model code)
     = (case code of None \<Rightarrow> 0 | Some c \<Rightarrow> c)"
  by (simp add: runAgent_def Let_def split: prod.splits)

lemma main_JsonPrinted:
  assumes "main h rawArgs code = JsonPrinted out"
  shows "out_exitCode out = (case code of None \<Rightarrow> 0 | Some c \<Rightarrow> c) \<and>
         out_ok out = (out_exitCode out = 0) \<and>
         (\<exists>parsed. parseArgs h rawArgs = Inr parsed \<and>
            out_changes out = getGitChanges h (out_cwd out) (maxBytes (parsedOptions parsed))
              (includeContent (parsedOptions parsed)))"
proof -
  from assms have "nextArg rawArgs \<noteq> Some ''skills''"
    by (auto simp: main_def)
  with assms obtain parsed where parsed: "parseArgs h rawArgs = Inr parsed"
    by (cases "parseArgs h rawArgs") (auto simp: main_def)
  from assms parsed show ?thesis
    by (auto simp: main_def Let_def runAgent_exitCode split: if_splits option.splits)
qed

lemma getGitChanges_failed:
  assumes "snd (gitStatus h cwd) \<noteq> Some 0"
  shows "getGitChanges h cwd cap withContent = []"
proof (cases "gitStatus h cwd")
  case (Pair out code)
  with assms have "(case code of None \<Rightarrow> 1 | Some c \<Rightarrow> c) \<noteq> (0::int)"
    by (cases code) simp_all
  with Pair show ?thesis
    by (simp add: getGitChanges_def)
qed

lemma normalizeMaxBytes_pos: "0 < normalizeMaxBytes h v"
  by (simp add: normalizeMaxBytes_def DEFAULT_MAX_BYTES_def split: jsnum.splits)

lemma subarrayTo_take:
  assumes "0 \<le> cap" "cap < of_nat (length data)"
  shows "subarrayTo data cap = take (nat \<lfloor>cap\<rfloor>) data"
    and "length (take (nat \<lfloor>cap\<rfloor>) data) = nat \<lfloor>cap\<rfloor>"
    and "(of_nat (nat \<lfloor>cap\<rfloor>) :: rat) \<le> cap"
proof -
  from assms(1) have fl: "0 \<le> \<lfloor>cap\<rfloor>"
    by simp
  from assms(2) have lt: "\<lfloor>cap\<rfloor> < int (length data)"
    by (simp add: floor_less_iff)
  from fl lt assms(1) show "subarrayTo data cap = take (nat \<lfloor>cap\<rfloor>) data"
    by (simp add: subarrayTo_def truncToInt_def Let_def min_def)
  from fl lt show "length (take (nat \<lfloor>cap\<rfloor>) data) = nat \<lfloor>cap\<rfloor>"
    by simp
  from fl have "(of_nat (nat \<lfloor>cap\<rfloor>) :: rat) = of_int \<lfloor>cap\<rfloor>"
    by simp
  then show "(of_nat (nat \<lfloor>cap\<rfloor>) :: rat) \<le> cap"
    by simp
qed

lemma changeOfLine_Some:
  assumes "changeOfLine h cwd cap withContent line = Some c"
  obtains change where
    "change = \<lparr> path = path c, status = trim (take 2 line), content = None, truncated = None,
                 binary = None \<rparr>"
    and "path c \<noteq> []"
    and "c = (if withContent then
               (case readFile h (pathResolve h cwd (path c)) of
                  None \<Rightarrow> change
                | Some data \<Rightarrow>
                    if isProbablyBinary data then change\<lparr>binary := Some True\<rparr>
                    else if of_nat (length data) > cap then
                      change\<lparr>content := Some (utf8 h (subarrayTo data cap)),
                             truncated := Some True\<rparr>
                    else change\<lparr>content := Some (utf8 h data)\<rparr>)
             else change)"
proof -
  define fname where "fname =
    (if includesStr (trim (drop 3 line)) '' -> ''
     then orElse (pop (split (trim (drop 3 line)) '' -> '')) (trim (drop 3 line))
     else trim (drop 3 line))"
  define change where "change =
    \<lparr> path = fname, status = trim (take 2 line), content = None, truncated = None, binary = None \<rparr>"
  have unfolded: "changeOfLine h cwd cap withContent line =
    (if fname = [] then None
     else Some
       (if withContent then
          (case readFile h (pathResolve h cwd fname) of
             None \<Rightarrow> change
           | Some data \<Rightarrow>
               if isProbablyBinary data then change\<lparr>binary := Some True\<rparr>
               else if of_nat (length data) > cap then
                 change\<lparr>content := Some (utf8 h (subarrayTo data cap)), truncated := Some True\<rparr>
               else change\<lparr>content := Some (utf8 h data)\<rparr>)
        else change))"
    by (simp only: changeOfLine_def Let_def fname_def change_def)
  from assms have nonempty: "fname \<noteq> []"
    by (auto simp: unfolded split: if_splits)
  with assms have c: "c =
       (if withContent then
          (case readFile h (pathResolve h cwd fname) of
             None \<Rightarrow> change
           | Some data \<Rightarrow>
               if isProbablyBinary data then change\<lparr>binary := Some True\<rparr>
               else if of_nat (length data) > cap then
                 change\<lparr>content := Some (utf8 h (subarrayTo data cap)), truncated := Some True\<rparr>
               else change\<lparr>content := Some (utf8 h data)\<rparr>)
        else change)"
    by (simp add: unfolded)
  then have p: "path c = fname"
    by (auto simp: change_def split: option.splits if_splits)
  have ch: "change = \<lparr> path = path c, status = trim (take 2 line), content = None,
      truncated = None, binary = None \<rparr>"
    by (simp add: change_def p)
  from nonempty p have ne: "path c \<noteq> []"
    by simp
  from that [OF ch ne c [unfolded p [symmetric]]] show thesis .
qed

lemma main_JsonPrinted_args:
  assumes "main h rawArgs code = JsonPrinted out"
  shows "\<exists>parsed selected d.
           parseArgs h rawArgs = Inr parsed \<and>
           selectAgent (buildAgentConfigs h) (agent (parsedOptions parsed)) = Some selected \<and>
           dir (parsedOptions parsed) = Some d \<and>
           out_args out
             = spawnArgs (runAgent h selected (parsedPrompt parsed) (input (parsedOptions parsed))
                 (pathResolve h (procCwd h) d) (parsedPassthrough parsed)
                 (format (parsedOptions parsed)) (modelId (parsedOptions parsed)) code)"
proof -
  from assms have "nextArg rawArgs \<noteq> Some ''skills''"
    by (auto simp: main_def)
  with assms obtain parsed where parsed: "parseArgs h rawArgs = Inr parsed"
    by (cases "parseArgs h rawArgs") (auto simp: main_def)
  from assms parsed obtain selected where
    selected: "selectAgent (buildAgentConfigs h) (agent (parsedOptions parsed)) = Some selected"
    by (cases "selectAgent (buildAgentConfigs h) (agent (parsedOptions parsed))")
       (auto simp: main_def Let_def split: if_splits)
  from assms parsed selected obtain d where d: "dir (parsedOptions parsed) = Some d"
    by (cases "dir (parsedOptions parsed)") (auto simp: main_def Let_def split: if_splits)
  have "returnedArgs (runAgent h selected (parsedPrompt parsed) (input (parsedOptions parsed))
                 (pathResolve h (procCwd h) d) (parsedPassthrough parsed)
                 (format (parsedOptions parsed)) (modelId (parsedOptions parsed)) code)
      = spawnArgs (runAgent h selected (parsedPrompt parsed) (input (parsedOptions parsed))
                 (pathResolve h (procCwd h) d) (parsedPassthrough parsed)
                 (format (parsedOptions parsed)) (modelId (parsedOptions parsed)) code)"
    by (simp add: runAgent_def Let_def split: prod.splits)
  with assms parsed selected d have "out_args out
             = spawnArgs (runAgent h selected (parsedPrompt parsed) (input (parsedOptions parsed))
                 (pathResolve h (procCwd h) d) (parsedPassthrough parsed)
                 (format (parsedOptions parsed)) (modelId (parsedOptions parsed)) code)"
    by (auto simp: main_def Let_def split: if_splits)
  with parsed selected d show ?thesis
    by blast
qed

lemma collectChanges_mem:
  "c \<in> set (collectChanges h cwd cap withContent ls) \<Longrightarrow>
   \<exists>line. changeOfLine h cwd cap withContent line = Some c"
  by (induction ls) (auto split: option.splits)

lemma getGitChanges_mem:
  assumes "c \<in> set (getGitChanges h cwd cap withContent)"
  shows "\<exists>line. changeOfLine h cwd cap withContent line = Some c"
proof (cases "gitStatus h cwd")
  case (Pair out code)
  with assms have "c \<in> set (collectChanges h cwd cap withContent
      (filter (\<lambda>l. l \<noteq> []) (splitLines out)))"
    by (auto simp: getGitChanges_def split: if_splits)
  then show ?thesis
    by (rule collectChanges_mem)
qed

lemma changeOfLine_content:
  assumes "changeOfLine h cwd cap True line = Some c"
    and "readFile h (pathResolve h cwd (path c)) = Some data"
    and "0 < cap"
  shows "(isProbablyBinary data \<longrightarrow>
            content c = None \<and> truncated c = None \<and> binary c = Some True) \<and>
         (\<not> isProbablyBinary data \<and> of_nat (length data) \<le> cap \<longrightarrow>
            content c = Some (utf8 h data) \<and> truncated c = None \<and> binary c = None) \<and>
         (\<not> isProbablyBinary data \<and> of_nat (length data) > cap \<longrightarrow>
            content c = Some (utf8 h (take (nat \<lfloor>cap\<rfloor>) data)) \<and>
            length (take (nat \<lfloor>cap\<rfloor>) data) = nat \<lfloor>cap\<rfloor> \<and>
            truncated c = Some True \<and> binary c = None) \<and>
         (0 \<in> set (take 8000 data) \<longrightarrow> content c = None) \<and>
         (\<forall>s. content c = Some s \<longrightarrow>
            (\<exists>bytes. s = utf8 h bytes \<and> of_nat (length bytes) \<le> cap)) \<and>
         0 < normalizeMaxBytes h v"
proof -
  from changeOfLine_Some [OF assms(1)] obtain change where
    ch: "change = \<lparr> path = path c, status = trim (take 2 line), content = None, truncated = None,
                 binary = None \<rparr>"
    and c: "c = (if True then
               (case readFile h (pathResolve h cwd (path c)) of
                  None \<Rightarrow> change
                | Some data \<Rightarrow>
                    if isProbablyBinary data then change\<lparr>binary := Some True\<rparr>
                    else if of_nat (length data) > cap then
                      change\<lparr>content := Some (utf8 h (subarrayTo data cap)),
                             truncated := Some True\<rparr>
                    else change\<lparr>content := Some (utf8 h data)\<rparr>)
             else change)"
    by blast
  from c assms(2) have c': "c =
      (if isProbablyBinary data then change\<lparr>binary := Some True\<rparr>
       else if of_nat (length data) > cap then
         change\<lparr>content := Some (utf8 h (subarrayTo data cap)), truncated := Some True\<rparr>
       else change\<lparr>content := Some (utf8 h data)\<rparr>)"
    by simp
  have chf: "content change = None" "truncated change = None" "binary change = None"
    by (simp_all add: ch)
  have zero: "isProbablyBinary data" if "0 \<in> set (take 8000 data)"
    using that by (simp add: isProbablyBinary_def Let_def scanSample_None [THEN iffD2])
  show ?thesis
  proof (cases "isProbablyBinary data")
    case True
    with c' have "c = change\<lparr>binary := Some True\<rparr>"
      by simp
    then have "content c = None \<and> truncated c = None \<and> binary c = Some True"
      using chf by simp
    with True show ?thesis
      by (simp add: normalizeMaxBytes_pos)
  next
    case False
    note nb = False
    show ?thesis
    proof (cases "of_nat (length data) > cap")
      case True
      note sub = subarrayTo_take [OF less_imp_le [OF assms(3)] True]
      from c' nb True have "c = change\<lparr>content := Some (utf8 h (subarrayTo data cap)),
          truncated := Some True\<rparr>"
        by simp
      then have fields: "content c = Some (utf8 h (take (nat \<lfloor>cap\<rfloor>) data)) \<and>
          truncated c = Some True \<and> binary c = None"
        using chf sub(1) by simp
      have "\<exists>bytes. utf8 h (take (nat \<lfloor>cap\<rfloor>) data) = utf8 h bytes \<and>
          (of_nat (length bytes) :: rat) \<le> cap"
        using sub(2,3) by (intro exI [of _ "take (nat \<lfloor>cap\<rfloor>) data"]) simp
      with fields nb True sub(2) zero show ?thesis
        by (auto simp: normalizeMaxBytes_pos)
    next
      case False
      with c' nb have "c = change\<lparr>content := Some (utf8 h data)\<rparr>"
        by simp
      then have fields: "content c = Some (utf8 h data) \<and> truncated c = None \<and> binary c = None"
        using chf by simp
      from False have "\<exists>bytes. utf8 h data = utf8 h bytes \<and> (of_nat (length bytes) :: rat) \<le> cap"
        by (intro exI [of _ data]) simp
      with fields nb False zero show ?thesis
        by (auto simp: normalizeMaxBytes_pos)
    qed
  qed
qed



subsection \<open>The binary classifier (C6)\<close>

text \<open>
  C6. For every byte buffer, \<open>isProbablyBinary\<close> returns true if one of the first 8000
  bytes is zero. Otherwise it returns true exactly when the sample (the first 8000 bytes)
  is not empty and the number of its bytes outside the printable set (9, 10, 13 and 32 to
  126) exceeds 30 percent of its length, that is, ten times the number exceeds three times
  the length. An empty buffer is not binary.
\<close>

theorem isProbablyBinary_characterised:
  "isProbablyBinary buf =
     (let sample = take 8000 buf in
      if 0 \<in> set sample then True
      else sample \<noteq> [] \<and>
           10 * length (filter (\<lambda>b. unat b \<notin> {9, 10, 13} \<union> {32..126}) sample)
             > 3 * length sample)"
proof -
  define sample where "sample = take 8000 buf"
  define k where "k = length (filter (\<lambda>b. unat b \<notin> {9, 10, 13} \<union> {32..126}) sample)"
  have unfolded: "isProbablyBinary buf =
      (case scanSample sample 0 of
         None \<Rightarrow> True
       | Some np \<Rightarrow> length sample > 0 \<and> (of_nat np :: rat) / of_nat (length sample) > 3 / 10)"
    by (simp only: isProbablyBinary_def Let_def sample_def)
  have "isProbablyBinary buf =
      (if 0 \<in> set sample then True else sample \<noteq> [] \<and> 10 * k > 3 * length sample)"
  proof (cases "0 \<in> set sample")
    case True
    then have "scanSample sample 0 = None"
      by (simp only: scanSample_None)
    with True show ?thesis
      by (simp add: unfolded)
  next
    case False
    then have "scanSample sample 0 = Some k"
      by (simp add: scanSample_Some k_def isPrintable_unat)
    then have "isProbablyBinary buf =
        (length sample > 0 \<and> (of_nat k :: rat) / of_nat (length sample) > 3 / 10)"
      by (simp only: unfolded option.case)
    also have "\<dots> = (sample \<noteq> [] \<and> 10 * k > 3 * length sample)"
      using ratio_exceeds_three_tenths [where n = k and m = "length sample"]
      by (cases sample) auto
    finally show ?thesis
      using False by simp
  qed
  then show ?thesis
    by (simp only: Let_def sample_def k_def)
qed

subsection \<open>The exit code of a child that ends without one (C8)\<close>

text \<open>
  C8. When the agent's process closes without an exit code (\<open>code\<close> is \<open>null\<close>, as after a
  signal), \<open>runAgent\<close> returns exit code 0, and the argument list it returns is the list it
  passed to \<open>spawn\<close>.
\<close>

theorem runAgent_exit_code_defaults_to_zero:
  "exitCode (runAgent h config prompt inputMode cwd passthru fmt model None) = 0 \<and>
   returnedArgs (runAgent h config prompt inputMode cwd passthru fmt model None)
     = spawnArgs (runAgent h config prompt inputMode cwd passthru fmt model None)"
  by (simp add: runAgent_def Let_def split: prod.splits)

subsection \<open>The prompt (C9)\<close>

text \<open>
  C9. When \<open>parseArgs\<close> returns, the prompt is the positional tokens of the invocation (the
  scanned tokens that are neither options nor values of options), joined by single spaces,
  with the white space at both ends removed. Several positional tokens become one prompt.
\<close>

theorem prompt_is_joined_positional_tokens:
  "parseArgs h argv = Inr r \<Longrightarrow> parsedPrompt r = trim (join (positionalTokens argv) '' '')"
  by (simp add: parseArgs_Inr)

theorem prompt_is_joined_positional_tokens_witness:
  "parseArgs exampleHost [''fix'', ''-d'', ''/tmp'', '' the'', ''bug '', ''--text'', ''--'', ''x'']
     = Inr \<lparr> parsedOptions =
               \<lparr> agent = None, dir = Some ''/tmp'', format = Text, input = Auto,
                 maxBytes = 1000000, includeContent = True, listAgentsOpt = False,
                 modelId = None, helpOpt = False \<rparr>,
             parsedPrompt = ''fix  the bug'', parsedPassthrough = [''x''] \<rparr> \<and>
   positionalTokens [''fix'', ''-d'', ''/tmp'', '' the'', ''bug '', ''--text'', ''--'', ''x'']
     = [''fix'', '' the'', ''bug ''] \<and>
   trim (join [''fix'', '' the'', ''bug ''] '' '') = ''fix  the bug''"
proof -
  let ?argv = "[''fix'', ''-d'', ''/tmp'', '' the'', ''bug '', ''--text'', ''--'', ''x'']"
  let ?r = "\<lparr> parsedOptions =
               \<lparr> agent = None, dir = Some ''/tmp'', format = Text, input = Auto,
                 maxBytes = 1000000, includeContent = True, listAgentsOpt = False,
                 modelId = None, helpOpt = False \<rparr>,
             parsedPrompt = ''fix  the bug'', parsedPassthrough = [''x''] \<rparr>"
  have parsed: "parseArgs exampleHost ?argv = Inr ?r"
    by code_simp
  have toks: "positionalTokens ?argv = [''fix'', '' the'', ''bug '']"
    by code_simp
  from prompt_is_joined_positional_tokens [OF parsed] toks
  have "trim (join [''fix'', '' the'', ''bug ''] '' '') = ''fix  the bug''"
    by simp
  with parsed toks show ?thesis
    by blast
qed

subsection \<open>Agent values outside the enumerated set (C5)\<close>




subsection \<open>The errors of argument parsing (C10)\<close>

text \<open>
  C10, as the code has it. \<open>parseArgs\<close> throws exactly when a scanned token is a model option
  followed by no token or by the empty token, or an agent option followed by no token or by
  a token that is not the name of an agent, and it throws nothing but the two errors
  \<open>Missing value for --model\<close> and \<open>Invalid agent\<close>. When the scan meets the format option,
  the input option or the byte-cap option and the value is missing or not recognised, it
  goes on after the value with the option set to the built-in default. When the directory
  option is the last token, the scan ends without an error, the directory undefined.
\<close>

theorem parse_errors_and_fallbacks:
  "((\<exists>e. parseArgs h argv = Inl e) \<longleftrightarrow> list_ex raisesAt (scannedTokens argv)) \<and>
   (parseArgs h argv = Inl e \<longrightarrow>
      e = MissingModelValue \<or> (\<exists>v. e = InvalidAgent v \<and> normalizeAgent v = None)) \<and>
   (\<not> inPassthrough st \<and> (a = ''-f'' \<or> a = ''--format'') \<and>
    nextArg rest \<noteq> Some ''json'' \<and> nextArg rest \<noteq> Some ''text'' \<longrightarrow>
      parseLoop h st (a # rest)
        = parseLoop h (st\<lparr>options := (options st)\<lparr>format := DEFAULT_FORMAT\<rparr>\<rparr>) (drop 1 rest)) \<and>
   (\<not> inPassthrough st \<and> a = ''--input'' \<and>
    nextArg rest \<noteq> Some ''auto'' \<and> nextArg rest \<noteq> Some ''arg'' \<and>
    nextArg rest \<noteq> Some ''stdin'' \<and> nextArg rest \<noteq> Some ''none'' \<longrightarrow>
      parseLoop h st (a # rest)
        = parseLoop h (st\<lparr>options := (options st)\<lparr>input := DEFAULT_INPUT\<rparr>\<rparr>) (drop 1 rest)) \<and>
   (\<not> inPassthrough st \<and> a = ''--max-bytes'' \<and>
    (nextArg rest = None \<or> (\<forall>q. Number h (nextArg rest) = Fin q \<longrightarrow> q \<le> 0)) \<longrightarrow>
      parseLoop h st (a # rest)
        = parseLoop h (st\<lparr>options := (options st)\<lparr>maxBytes := DEFAULT_MAX_BYTES\<rparr>\<rparr>)
            (drop 1 rest)) \<and>
   (\<not> inPassthrough st \<and> (a = ''-d'' \<or> a = ''--dir'') \<longrightarrow>
      parseLoop h st [a] = Inr (st\<lparr>options := (options st)\<lparr>dir := None\<rparr>\<rparr>))"
proof (intro conjI impI)
  show "(\<exists>e. parseArgs h argv = Inl e) \<longleftrightarrow> list_ex raisesAt (scannedTokens argv)"
    by (rule parseArgs_throws_iff)
next
  assume "parseArgs h argv = Inl e"
  then have "parseLoop h (initialState h) argv = Inl e"
    by (auto simp: parseArgs_def split: sum.splits)
  from parseLoop_Inl_kind [OF initialState_facts(1) this]
  show "e = MissingModelValue \<or> (\<exists>v. e = InvalidAgent v \<and> normalizeAgent v = None)" .
next
  assume "\<not> inPassthrough st \<and> (a = ''-f'' \<or> a = ''--format'') \<and>
    nextArg rest \<noteq> Some ''json'' \<and> nextArg rest \<noteq> Some ''text''"
  then show "parseLoop h st (a # rest)
        = parseLoop h (st\<lparr>options := (options st)\<lparr>format := DEFAULT_FORMAT\<rparr>\<rparr>) (drop 1 rest)"
    using parseLoop_format_fallback by blast
next
  assume "\<not> inPassthrough st \<and> a = ''--input'' \<and>
    nextArg rest \<noteq> Some ''auto'' \<and> nextArg rest \<noteq> Some ''arg'' \<and>
    nextArg rest \<noteq> Some ''stdin'' \<and> nextArg rest \<noteq> Some ''none''"
  then show "parseLoop h st (a # rest)
        = parseLoop h (st\<lparr>options := (options st)\<lparr>input := DEFAULT_INPUT\<rparr>\<rparr>) (drop 1 rest)"
    using parseLoop_input_fallback by blast
next
  assume "\<not> inPassthrough st \<and> a = ''--max-bytes'' \<and>
    (nextArg rest = None \<or> (\<forall>q. Number h (nextArg rest) = Fin q \<longrightarrow> q \<le> 0))"
  then show "parseLoop h st (a # rest)
        = parseLoop h (st\<lparr>options := (options st)\<lparr>maxBytes := DEFAULT_MAX_BYTES\<rparr>\<rparr>)
            (drop 1 rest)"
    using parseLoop_max_bytes_fallback by blast
next
  assume "\<not> inPassthrough st \<and> (a = ''-d'' \<or> a = ''--dir'')"
  then show "parseLoop h st [a] = Inr (st\<lparr>options := (options st)\<lparr>dir := None\<rparr>\<rparr>)"
    using parseLoop_dir_missing by blast
qed

theorem parse_errors_and_fallbacks_witness:
  "parseArgs exampleHost [''hi'', ''-m''] = Inl MissingModelValue \<and>
   list_ex raisesAt (scannedTokens [''hi'', ''-m'']) \<and>
   normalizeAgent (Some ''gpt'') = None \<and>
   parseLoop exampleHost (initialState exampleHost) [''-f'', ''xml'']
     = Inr ((initialState exampleHost)
              \<lparr>options := (options (initialState exampleHost))\<lparr>format := DEFAULT_FORMAT\<rparr>\<rparr>) \<and>
   parseLoop exampleHost (initialState exampleHost) [''--input'']
     = Inr ((initialState exampleHost)
              \<lparr>options := (options (initialState exampleHost))\<lparr>input := DEFAULT_INPUT\<rparr>\<rparr>) \<and>
   parseLoop exampleHost (initialState exampleHost) [''--max-bytes'', ''abc'']
     = Inr ((initialState exampleHost)
              \<lparr>options := (options (initialState exampleHost))\<lparr>maxBytes := DEFAULT_MAX_BYTES\<rparr>\<rparr>) \<and>
   parseLoop exampleHost (initialState exampleHost) [''-d'']
     = Inr ((initialState exampleHost)
              \<lparr>options := (options (initialState exampleHost))\<lparr>dir := None\<rparr>\<rparr>)"
proof -
  let ?st = "initialState exampleHost"
  have thrown: "parseArgs exampleHost [''hi'', ''-m''] = Inl MissingModelValue"
    by code_simp
  note iff = parse_errors_and_fallbacks
    [where h = exampleHost and argv = "[''hi'', ''-m'']", THEN conjunct1]
  from thrown iff have raises: "list_ex raisesAt (scannedTokens [''hi'', ''-m''])"
    by blast
  have gpt: "parseArgs exampleHost [''-a'', ''gpt''] = Inl (InvalidAgent (Some ''gpt''))"
    by code_simp
  from gpt parse_errors_and_fallbacks
    [where h = exampleHost and argv = "[''-a'', ''gpt'']" and e = "InvalidAgent (Some ''gpt'')",
      THEN conjunct2, THEN conjunct1]
  have kind: "normalizeAgent (Some ''gpt'') = None"
    by simp
  have fmt: "parseLoop exampleHost ?st [''-f'', ''xml'']
      = Inr (?st\<lparr>options := (options ?st)\<lparr>format := DEFAULT_FORMAT\<rparr>\<rparr>)"
    using parse_errors_and_fallbacks
      [where h = exampleHost and st = ?st and a = "''-f''" and rest = "[''xml'']",
        THEN conjunct2, THEN conjunct2, THEN conjunct1]
    by (simp add: initialState_facts nextArg_def)
  have inp: "parseLoop exampleHost ?st [''--input'']
      = Inr (?st\<lparr>options := (options ?st)\<lparr>input := DEFAULT_INPUT\<rparr>\<rparr>)"
    using parse_errors_and_fallbacks
      [where h = exampleHost and st = ?st and a = "''--input''" and rest = "[]",
        THEN conjunct2, THEN conjunct2, THEN conjunct2, THEN conjunct1]
    by (simp add: initialState_facts nextArg_def)
  have "Number exampleHost (Some ''abc'') = NaN"
    by (simp add: Number_def exampleHost_def)
  then have cap: "parseLoop exampleHost ?st [''--max-bytes'', ''abc'']
      = Inr (?st\<lparr>options := (options ?st)\<lparr>maxBytes := DEFAULT_MAX_BYTES\<rparr>\<rparr>)"
    using parse_errors_and_fallbacks
      [where h = exampleHost and st = ?st and a = "''--max-bytes''" and rest = "[''abc'']",
        THEN conjunct2, THEN conjunct2, THEN conjunct2, THEN conjunct2, THEN conjunct1]
    by (simp add: initialState_facts nextArg_def)
  have dir: "parseLoop exampleHost ?st [''-d'']
      = Inr (?st\<lparr>options := (options ?st)\<lparr>dir := None\<rparr>\<rparr>)"
    using parse_errors_and_fallbacks
      [where h = exampleHost and st = ?st and a = "''-d''",
        THEN conjunct2, THEN conjunct2, THEN conjunct2, THEN conjunct2, THEN conjunct2]
    by (simp add: initialState_facts)
  from thrown raises kind fmt inp cap dir show ?thesis
    by blast
qed

text \<open>
  C10 as stated fails for the invocation \<open>-m ""\<close>: the model option is followed by a
  token, the empty string, and \<open>parseArgs\<close> throws.
\<close>

theorem model_flag_with_empty_token_raises:
  "parseArgs exampleHost [''-m'', ''''] = Inl MissingModelValue \<and>
   nextArg [''''] = Some '''' \<and>
   scannedTokens [''-m'', ''''] = [(''-m'', Some '''')]"
  by code_simp

subsection \<open>The input mode \<open>none\<close> (C1)\<close>

text \<open>
  C1, as the code has it. In input mode \<open>none\<close> nothing is written to the standard input
  of the child and the prompt is not appended to the arguments: the final argument list is
  the interpolated template, the passthrough tokens and the model pair, if appended. The
  prompt reaches the child through the placeholder only: when no entry of the template
  contains the placeholder, the final argument list is the one of the empty prompt.
\<close>

theorem no_input_mode_delivery:
  "stdinWritten (runAgent h config prompt NoInput cwd passthru fmt model code) = None \<and>
   spawnArgs (runAgent h config prompt NoInput cwd passthru fmt model code)
     = fst (interpolateArgs (args config) prompt) @ passthru
       @ appendedModelPair h config prompt passthru model \<and>
   (\<not> list_ex (\<lambda>a. includesStr a ''{prompt}'') (args config) \<longrightarrow>
      spawnArgs (runAgent h config prompt NoInput cwd passthru fmt model code)
        = spawnArgs (runAgent h config [] NoInput cwd passthru fmt model code))"
  by (cases model)
     (simp_all add: runAgent_stdinWritten runAgent_spawnArgs appendedPrompt_def assembledArgs_def
        appendedModelPair_def interpolateArgs_no_placeholder)

theorem no_input_mode_delivery_witness:
  "\<not> list_ex (\<lambda>a. includesStr a ''{prompt}'') (args \<lparr> name = Codex, cmd = ''codex'', args = [''exec''] \<rparr>) \<and>
   spawnArgs (runAgent exampleHost \<lparr> name = Codex, cmd = ''codex'', args = [''exec''] \<rparr> ''hi''
      NoInput ''/repo'' [''x''] Json None (Some 0))
     = spawnArgs (runAgent exampleHost \<lparr> name = Codex, cmd = ''codex'', args = [''exec''] \<rparr> []
      NoInput ''/repo'' [''x''] Json None (Some 0)) \<and>
   spawnArgs (runAgent exampleHost \<lparr> name = Codex, cmd = ''codex'', args = [''exec''] \<rparr> []
      NoInput ''/repo'' [''x''] Json None (Some 0)) = [''exec'', ''x'']"
proof -
  let ?c = "\<lparr> name = Codex, cmd = ''codex'', args = [''exec''] \<rparr>"
  have free: "\<not> list_ex (\<lambda>a. includesStr a ''{prompt}'') (args ?c)"
    by code_simp
  have empty: "spawnArgs (runAgent exampleHost ?c [] NoInput ''/repo'' [''x''] Json None (Some 0))
      = [''exec'', ''x'']"
    by code_simp
  from free no_input_mode_delivery
    [where h = exampleHost and config = ?c and prompt = "''hi''" and cwd = "''/repo''"
      and passthru = "[''x'']" and fmt = Json and model = None and code = "Some 0",
      THEN conjunct2, THEN conjunct2]
  have "spawnArgs (runAgent exampleHost ?c ''hi'' NoInput ''/repo'' [''x''] Json None (Some 0))
      = spawnArgs (runAgent exampleHost ?c [] NoInput ''/repo'' [''x''] Json None (Some 0))"
    by blast
  with free empty show ?thesis
    by blast
qed

text \<open>
  C1 as stated fails when the template contains the placeholder: with the template
  \<open>-p {prompt}\<close> the invocation \<open>hi -a claude --no-input -d /tmp\<close> passes the prompt
  \<open>hi\<close> to the child as an argument.
\<close>

theorem no_input_mode_substitutes_placeholder:
  "main exampleHost [''hi'', ''-a'', ''claude'', ''--no-input'', ''-d'', ''/tmp''] (Some 0)
     = JsonPrinted
         \<lparr> out_ok = True, out_agent = Claude, out_model = None, out_command = ''claude'',
           out_args = [''-p'', ''hi''], out_cwd = ''/tmp'', out_exitCode = 0, out_changes = [] \<rparr>"
  by code_simp

subsection \<open>The place of the passthrough tokens (C2)\<close>

text \<open>
  C2, as the code has it. The passthrough tokens are the tokens after the delimiter, in
  their order, and they stand in the final argument list directly after the interpolated
  template; the model pair, if appended, and the prompt, if appended, follow them. The
  list that \<open>runAgent\<close> returns is the list it passed to the child, and it is the list
  \<open>args\<close> of the JSON record that \<open>main\<close> prints.
\<close>

theorem passthrough_follows_template:
  "spawnArgs (runAgent h config prompt inputMode cwd passthru fmt model code)
     = fst (interpolateArgs (args config) prompt) @ passthru
       @ appendedModelPair h config prompt passthru model
       @ appendedPrompt config prompt inputMode \<and>
   returnedArgs (runAgent h config prompt inputMode cwd passthru fmt model code)
     = spawnArgs (runAgent h config prompt inputMode cwd passthru fmt model code) \<and>
   (parseArgs h argv = Inr r \<longrightarrow> parsedPassthrough r = passthroughTokens argv) \<and>
   passthroughTokens (''--'' # toks) = toks \<and>
   (main h argv code = JsonPrinted out \<longrightarrow>
      (\<exists>parsed selected.
         parseArgs h argv = Inr parsed \<and>
         selectAgent (buildAgentConfigs h) (agent (parsedOptions parsed)) = Some selected \<and>
         out_args out
           = fst (interpolateArgs (args selected) (parsedPrompt parsed)) @ passthroughTokens argv
             @ appendedModelPair h selected (parsedPrompt parsed) (passthroughTokens argv)
                 (modelId (parsedOptions parsed))
             @ appendedPrompt selected (parsedPrompt parsed) (input (parsedOptions parsed))))"
proof -
  have returned: "returnedArgs (runAgent h config prompt inputMode cwd passthru fmt model code)
     = spawnArgs (runAgent h config prompt inputMode cwd passthru fmt model code)"
    by (simp add: runAgent_def Let_def split: prod.splits)
  have whole: "\<exists>parsed selected.
         parseArgs h argv = Inr parsed \<and>
         selectAgent (buildAgentConfigs h) (agent (parsedOptions parsed)) = Some selected \<and>
         out_args out
           = fst (interpolateArgs (args selected) (parsedPrompt parsed)) @ passthroughTokens argv
             @ appendedModelPair h selected (parsedPrompt parsed) (passthroughTokens argv)
                 (modelId (parsedOptions parsed))
             @ appendedPrompt selected (parsedPrompt parsed) (input (parsedOptions parsed))"
    if run: "main h argv code = JsonPrinted out"
  proof -
    from main_JsonPrinted_args [OF run] obtain parsed selected d where
      parsed: "parseArgs h argv = Inr parsed"
      and selected: "selectAgent (buildAgentConfigs h) (agent (parsedOptions parsed)) = Some selected"
      and out: "out_args out
             = spawnArgs (runAgent h selected (parsedPrompt parsed) (input (parsedOptions parsed))
                 (pathResolve h (procCwd h) d) (parsedPassthrough parsed)
                 (format (parsedOptions parsed)) (modelId (parsedOptions parsed)) code)"
      by blast
    from parseArgs_Inr [OF parsed] have pt: "parsedPassthrough parsed = passthroughTokens argv"
      by simp
    from out have "out_args out
           = fst (interpolateArgs (args selected) (parsedPrompt parsed)) @ passthroughTokens argv
             @ appendedModelPair h selected (parsedPrompt parsed) (passthroughTokens argv)
                 (modelId (parsedOptions parsed))
             @ appendedPrompt selected (parsedPrompt parsed) (input (parsedOptions parsed))"
      by (simp add: runAgent_spawnArgs assembledArgs_def pt)
    with parsed selected show ?thesis
      by blast
  qed
  from returned whole show ?thesis
    using runAgent_spawnArgs [of h config prompt inputMode cwd passthru fmt model code]
      parseArgs_Inr [of h argv r]
    by (simp add: assembledArgs_def)
qed

theorem passthrough_follows_template_witness:
  "parseArgs exampleHost [''hi'', ''-a'', ''codex'', ''-d'', ''/tmp'', ''--'', ''x'', ''y'', ''z'']
     = Inr \<lparr> parsedOptions = (initialOptions exampleHost)\<lparr>agent := Some Codex, dir := Some ''/tmp''\<rparr>,
             parsedPrompt = ''hi'', parsedPassthrough = [''x'', ''y'', ''z''] \<rparr> \<and>
   passthroughTokens [''hi'', ''-a'', ''codex'', ''-d'', ''/tmp'', ''--'', ''x'', ''y'', ''z'']
     = [''x'', ''y'', ''z''] \<and>
   main exampleHost [''hi'', ''-a'', ''codex'', ''-d'', ''/tmp'', ''--'', ''x'', ''y'', ''z''] None
     = JsonPrinted
         \<lparr> out_ok = True, out_agent = Codex, out_model = None, out_command = ''codex'',
           out_args = [''x'', ''y'', ''z'', ''hi''], out_cwd = ''/tmp'', out_exitCode = 0,
           out_changes = [] \<rparr> \<and>
   (\<exists>parsed selected.
      parseArgs exampleHost [''hi'', ''-a'', ''codex'', ''-d'', ''/tmp'', ''--'', ''x'', ''y'', ''z'']
        = Inr parsed \<and>
      selectAgent (buildAgentConfigs exampleHost) (agent (parsedOptions parsed)) = Some selected \<and>
      [''x'', ''y'', ''z'', ''hi'']
        = fst (interpolateArgs (args selected) (parsedPrompt parsed))
          @ passthroughTokens [''hi'', ''-a'', ''codex'', ''-d'', ''/tmp'', ''--'', ''x'', ''y'', ''z'']
          @ appendedModelPair exampleHost selected (parsedPrompt parsed)
              (passthroughTokens
                 [''hi'', ''-a'', ''codex'', ''-d'', ''/tmp'', ''--'', ''x'', ''y'', ''z''])
              (modelId (parsedOptions parsed))
          @ appendedPrompt selected (parsedPrompt parsed) (input (parsedOptions parsed)))"
proof -
  let ?argv = "[''hi'', ''-a'', ''codex'', ''-d'', ''/tmp'', ''--'', ''x'', ''y'', ''z'']"
  let ?r = "\<lparr> parsedOptions = (initialOptions exampleHost)\<lparr>agent := Some Codex, dir := Some ''/tmp''\<rparr>,
             parsedPrompt = ''hi'', parsedPassthrough = [''x'', ''y'', ''z''] \<rparr>"
  let ?out = "\<lparr> out_ok = True, out_agent = Codex, out_model = None, out_command = ''codex'',
           out_args = [''x'', ''y'', ''z'', ''hi''], out_cwd = ''/tmp'', out_exitCode = 0,
           out_changes = [] \<rparr>"
  have parsed: "parseArgs exampleHost ?argv = Inr ?r"
    by code_simp
  have run: "main exampleHost ?argv None = JsonPrinted ?out"
    by code_simp
  note T = passthrough_follows_template
    [where h = exampleHost and argv = ?argv and r = ?r and code = None and out = ?out]
  from parsed T [THEN conjunct2, THEN conjunct2, THEN conjunct1]
  have tokens: "passthroughTokens ?argv = [''x'', ''y'', ''z'']"
    by simp
  from run T [THEN conjunct2, THEN conjunct2, THEN conjunct2, THEN conjunct2]
  have "\<exists>parsed selected.
      parseArgs exampleHost ?argv = Inr parsed \<and>
      selectAgent (buildAgentConfigs exampleHost) (agent (parsedOptions parsed)) = Some selected \<and>
      out_args ?out
        = fst (interpolateArgs (args selected) (parsedPrompt parsed)) @ passthroughTokens ?argv
          @ appendedModelPair exampleHost selected (parsedPrompt parsed) (passthroughTokens ?argv)
              (modelId (parsedOptions parsed))
          @ appendedPrompt selected (parsedPrompt parsed) (input (parsedOptions parsed))"
    by blast
  then have "\<exists>parsed selected.
      parseArgs exampleHost ?argv = Inr parsed \<and>
      selectAgent (buildAgentConfigs exampleHost) (agent (parsedOptions parsed)) = Some selected \<and>
      [''x'', ''y'', ''z'', ''hi'']
        = fst (interpolateArgs (args selected) (parsedPrompt parsed)) @ passthroughTokens ?argv
          @ appendedModelPair exampleHost selected (parsedPrompt parsed) (passthroughTokens ?argv)
              (modelId (parsedOptions parsed))
          @ appendedPrompt selected (parsedPrompt parsed) (input (parsedOptions parsed))"
    by (simp only: Output.select_convs)
  with parsed tokens run show ?thesis
    by blast
qed

text \<open>
  C2 as stated fails when the model pair or the prompt is appended: for the invocation
  \<open>hi -a codex -m m -- x y z\<close> the final argument list ends with \<open>--model m hi\<close>, not
  with the three passthrough tokens.
\<close>

theorem passthrough_not_last:
  "main exampleHost [''hi'', ''-a'', ''codex'', ''-m'', ''m'', ''--'', ''x'', ''y'', ''z''] (Some 0)
     = JsonPrinted
         \<lparr> out_ok = True, out_agent = Codex, out_model = Some ''m'', out_command = ''codex'',
           out_args = [''x'', ''y'', ''z'', ''--model'', ''m'', ''hi''], out_cwd = ''/repo'',
           out_exitCode = 0,
           out_changes =
             [\<lparr> path = ''a.txt'', status = ''M'', content = Some ''hi\<newline>'', truncated = None,
                 binary = None \<rparr>,
              \<lparr> path = ''b.bin'', status = ''??'', content = None, truncated = None,
                 binary = Some True \<rparr>] \<rparr>"
  by code_simp

subsection \<open>A model flag that is already present (C3)\<close>

text \<open>
  C3, as the code has it. When the assembled argument list (the interpolated template and
  the passthrough tokens) contains the model flag, as a token or as a prefix \<open>flag=\<close>, no
  model pair is appended, whether a model is supplied or not: the final argument list is
  the assembled list, followed by the prompt when it is appended, and it contains the flag
  as many times as these two together.
\<close>

theorem model_flag_not_appended_twice:
  assumes "hasFlag (fst (interpolateArgs (args config) prompt) @ passthru)
             (getModelFlag h (name config))"
  shows "appendedModelPair h config prompt passthru model = [] \<and>
     spawnArgs (runAgent h config prompt inputMode cwd passthru fmt model code)
       = fst (interpolateArgs (args config) prompt) @ passthru
         @ appendedPrompt config prompt inputMode \<and>
     flagCount (spawnArgs (runAgent h config prompt inputMode cwd passthru fmt model code))
         (getModelFlag h (name config))
       = flagCount (fst (interpolateArgs (args config) prompt) @ passthru)
           (getModelFlag h (name config))
         + flagCount (appendedPrompt config prompt inputMode) (getModelFlag h (name config))"
proof -
  from assms have none: "appendedModelPair h config prompt passthru model = []"
    by (cases model) (simp_all add: appendedModelPair_def assembledArgs_def)
  then have "spawnArgs (runAgent h config prompt inputMode cwd passthru fmt model code)
       = fst (interpolateArgs (args config) prompt) @ passthru
         @ appendedPrompt config prompt inputMode"
    by (simp add: runAgent_spawnArgs assembledArgs_def)
  with none show ?thesis
    by (simp add: flagCount_append)
qed

theorem model_flag_not_appended_twice_witness:
  "hasFlag (fst (interpolateArgs (args \<lparr> name = Codex, cmd = ''codex'', args = [''exec''] \<rparr>) ''hi'')
            @ [''--model=a''])
     (getModelFlag exampleHost (name \<lparr> name = Codex, cmd = ''codex'', args = [''exec''] \<rparr>)) \<and>
   spawnArgs (runAgent exampleHost \<lparr> name = Codex, cmd = ''codex'', args = [''exec''] \<rparr> ''hi''
      Auto ''/repo'' [''--model=a''] Json (Some ''m'') (Some 0))
     = [''exec'', ''--model=a'', ''hi''] \<and>
   flagCount (spawnArgs (runAgent exampleHost \<lparr> name = Codex, cmd = ''codex'', args = [''exec''] \<rparr>
      ''hi'' Auto ''/repo'' [''--model=a''] Json (Some ''m'') (Some 0)))
     (getModelFlag exampleHost (name \<lparr> name = Codex, cmd = ''codex'', args = [''exec''] \<rparr>)) = 1"
proof -
  let ?c = "\<lparr> name = Codex, cmd = ''codex'', args = [''exec''] \<rparr>"
  have has: "hasFlag (fst (interpolateArgs (args ?c) ''hi'') @ [''--model=a''])
      (getModelFlag exampleHost (name ?c))"
    by code_simp
  have interp: "fst (interpolateArgs (args ?c) ''hi'') = [''exec'']"
    by code_simp
  have appended: "appendedPrompt ?c ''hi'' Auto = [''hi'']"
    by code_simp
  have count: "flagCount ([''exec''] @ [''--model=a'']) (getModelFlag exampleHost (name ?c))
      + flagCount [''hi''] (getModelFlag exampleHost (name ?c)) = 1"
    by code_simp
  note T = model_flag_not_appended_twice [OF has, where inputMode = Auto and cwd = "''/repo''"
      and fmt = Json and model = "Some ''m''" and code = "Some 0"]
  from T have final: "spawnArgs (runAgent exampleHost ?c ''hi'' Auto ''/repo'' [''--model=a''] Json
        (Some ''m'') (Some 0))
      = fst (interpolateArgs (args ?c) ''hi'') @ [''--model=a''] @ appendedPrompt ?c ''hi'' Auto"
    and counted: "flagCount (spawnArgs (runAgent exampleHost ?c ''hi'' Auto ''/repo'' [''--model=a'']
        Json (Some ''m'') (Some 0))) (getModelFlag exampleHost (name ?c))
      = flagCount (fst (interpolateArgs (args ?c) ''hi'') @ [''--model=a''])
          (getModelFlag exampleHost (name ?c))
        + flagCount (appendedPrompt ?c ''hi'' Auto) (getModelFlag exampleHost (name ?c))"
    by blast+
  from final have final': "spawnArgs (runAgent exampleHost ?c ''hi'' Auto ''/repo'' [''--model=a''] Json
        (Some ''m'') (Some 0)) = [''exec'', ''--model=a'', ''hi'']"
    by (simp only: interp appended append.simps)
  from counted have "flagCount (spawnArgs (runAgent exampleHost ?c ''hi'' Auto ''/repo''
        [''--model=a''] Json (Some ''m'') (Some 0))) (getModelFlag exampleHost (name ?c)) = 1"
    by (simp only: interp appended count)
  with has final' show ?thesis
    by blast
qed

text \<open>
  C3 as stated fails when the passthrough tokens carry the flag twice: for the invocation
  \<open>hi -a codex -m m -d /tmp -- --model=a --model b\<close> the final argument list contains the
  flag twice.
\<close>

theorem model_flag_kept_twice:
  "main exampleHost [''hi'', ''-a'', ''codex'', ''-m'', ''m'', ''-d'', ''/tmp'', ''--'',
       ''--model=a'', ''--model'', ''b''] (Some 0)
     = JsonPrinted
         \<lparr> out_ok = True, out_agent = Codex, out_model = Some ''m'', out_command = ''codex'',
           out_args = [''--model=a'', ''--model'', ''b'', ''hi''], out_cwd = ''/tmp'',
           out_exitCode = 0, out_changes = [] \<rparr> \<and>
   getModelFlag exampleHost Codex = ''--model'' \<and>
   hasFlag [''--model=a'', ''--model'', ''b''] ''--model'' \<and>
   flagCount [''--model=a'', ''--model'', ''b'', ''hi''] ''--model'' = 2"
  by code_simp

subsection \<open>A failing status query (C7)\<close>

text \<open>
  C7. When the status query in a working directory does not exit with code 0,
  \<open>getGitChanges\<close> returns the empty list, and a JSON record printed for that directory has
  no changes, the exit code of the agent's process (0 when it ended without one) and \<open>ok\<close>
  true exactly when that exit code is 0.
\<close>

theorem failed_status_query_gives_no_changes:
  assumes "snd (gitStatus h cwd) \<noteq> Some 0"
  shows "getGitChanges h cwd cap withContent = [] \<and>
     (main h rawArgs code = JsonPrinted out \<and> out_cwd out = cwd \<longrightarrow>
        out_changes out = [] \<and>
        out_exitCode out = (case code of None \<Rightarrow> 0 | Some c \<Rightarrow> c) \<and>
        out_ok out = (out_exitCode out = 0))"
  using getGitChanges_failed [OF assms] main_JsonPrinted [of h rawArgs code out]
  by auto

theorem failed_status_query_gives_no_changes_witness:
  "snd (gitStatus exampleHost ''/tmp'') \<noteq> Some 0 \<and>
   getGitChanges exampleHost ''/tmp'' 1000000 True = [] \<and>
   main exampleHost [''hi'', ''-a'', ''codex'', ''--dir'', ''/tmp''] (Some 3)
     = JsonPrinted
         \<lparr> out_ok = False, out_agent = Codex, out_model = None, out_command = ''codex'',
           out_args = [''hi''], out_cwd = ''/tmp'', out_exitCode = 3, out_changes = [] \<rparr>"
proof -
  let ?out = "\<lparr> out_ok = False, out_agent = Codex, out_model = None, out_command = ''codex'',
           out_args = [''hi''], out_cwd = ''/tmp'', out_exitCode = 3, out_changes = [] \<rparr>"
  have failed: "snd (gitStatus exampleHost ''/tmp'') \<noteq> Some 0"
    by (simp add: exampleHost_def)
  have run: "main exampleHost [''hi'', ''-a'', ''codex'', ''--dir'', ''/tmp''] (Some 3)
      = JsonPrinted ?out"
    by code_simp
  from failed_status_query_gives_no_changes [OF failed, where cap = 1000000 and withContent = True
      and rawArgs = "[''hi'', ''-a'', ''codex'', ''--dir'', ''/tmp'']" and code = "Some 3"
      and out = ?out]
  have "getGitChanges exampleHost ''/tmp'' 1000000 True = []"
    by blast
  with failed run show ?thesis
    by blast
qed

subsection \<open>The content of a changed file (C4)\<close>

text \<open>
  C4, as the code has it. Take a record that \<open>getGitChanges\<close> returns with content
  inclusion enabled, under a positive byte cap, and the bytes read from the file of that
  record. If the classifier finds the file binary, which it does whenever one
  of the first 8000 bytes is zero, the record has no content and no truncation flag, and
  the binary flag is set. If it is not binary and has at most as many bytes as the cap, the
  record carries the whole file, decoded, and no truncation flag. If it is not binary and
  has more bytes than the cap, the record carries the decoded first bytes of the file, as
  many as the integer part of the cap, and the truncation flag is set. In every case the
  recorded content is the decoding of no more bytes than the cap. The cap that
  \<open>normalizeMaxBytes\<close> resolves is always positive.
\<close>

theorem changed_file_content:
  assumes "c \<in> set (getGitChanges h cwd cap True)"
    and "readFile h (pathResolve h cwd (path c)) = Some data"
    and "0 < cap"
  shows "(isProbablyBinary data \<longrightarrow>
            content c = None \<and> truncated c = None \<and> binary c = Some True) \<and>
         (\<not> isProbablyBinary data \<and> of_nat (length data) \<le> cap \<longrightarrow>
            content c = Some (utf8 h data) \<and> truncated c = None \<and> binary c = None) \<and>
         (\<not> isProbablyBinary data \<and> of_nat (length data) > cap \<longrightarrow>
            content c = Some (utf8 h (take (nat \<lfloor>cap\<rfloor>) data)) \<and>
            length (take (nat \<lfloor>cap\<rfloor>) data) = nat \<lfloor>cap\<rfloor> \<and>
            truncated c = Some True \<and> binary c = None) \<and>
         (0 \<in> set (take 8000 data) \<longrightarrow> content c = None) \<and>
         (\<forall>s. content c = Some s \<longrightarrow>
            (\<exists>bytes. s = utf8 h bytes \<and> of_nat (length bytes) \<le> cap)) \<and>
         0 < normalizeMaxBytes h v"
proof -
  from getGitChanges_mem [OF assms(1)] obtain line where
    "changeOfLine h cwd cap True line = Some c"
    by blast
  from changeOfLine_content [OF this assms(2,3)] show ?thesis .
qed

theorem changed_file_content_witness:
  "\<lparr> path = ''a.txt'', status = ''M'', content = Some ''hi'', truncated = Some True,
     binary = None \<rparr> \<in> set (getGitChanges exampleHost ''/repo'' 2 True) \<and>
   readFile exampleHost (pathResolve exampleHost ''/repo'' ''a.txt'') = Some [104, 105, 10] \<and>
   (0 :: rat) < 2 \<and>
   \<not> isProbablyBinary [104, 105, 10] \<and>
   (2 :: rat) < of_nat (length [104, 105, 10 :: byte]) \<and>
   Some ''hi'' = Some (utf8 exampleHost (take (nat \<lfloor>2 :: rat\<rfloor>) [104, 105, 10])) \<and>
   length (take (nat \<lfloor>2 :: rat\<rfloor>) [104, 105, 10 :: byte]) = nat \<lfloor>2 :: rat\<rfloor>"
proof -
  let ?c = "\<lparr> path = ''a.txt'', status = ''M'', content = Some ''hi'', truncated = Some True,
              binary = None \<rparr>"
  have "getGitChanges exampleHost ''/repo'' 2 True
      = [?c, \<lparr> path = ''b.bin'', status = ''??'', content = None, truncated = None,
                binary = Some True \<rparr>]"
    by code_simp
  then have mem: "?c \<in> set (getGitChanges exampleHost ''/repo'' 2 True)"
    by simp
  have read: "readFile exampleHost (pathResolve exampleHost ''/repo'' ''a.txt'')
      = Some [104, 105, 10]"
    by code_simp
  then have read': "readFile exampleHost (pathResolve exampleHost ''/repo'' (path ?c))
      = Some [104, 105, 10]"
    by simp
  have cap: "(0 :: rat) < 2"
    by simp
  have nb: "\<not> isProbablyBinary [104, 105, 10]"
    by code_simp
  have gt: "(2 :: rat) < of_nat (length [104, 105, 10 :: byte])"
    by simp
  note T = changed_file_content [OF mem read' cap, THEN conjunct2, THEN conjunct2, THEN conjunct1]
  from T nb gt have "content ?c = Some (utf8 exampleHost (take (nat \<lfloor>2 :: rat\<rfloor>) [104, 105, 10])) \<and>
      length (take (nat \<lfloor>2 :: rat\<rfloor>) [104, 105, 10 :: byte]) = nat \<lfloor>2 :: rat\<rfloor>"
    by blast
  then have "Some ''hi'' = Some (utf8 exampleHost (take (nat \<lfloor>2 :: rat\<rfloor>) [104, 105, 10])) \<and>
      length (take (nat \<lfloor>2 :: rat\<rfloor>) [104, 105, 10 :: byte]) = nat \<lfloor>2 :: rat\<rfloor>"
    by (simp only: Change.select_convs)
  with mem read cap nb gt show ?thesis
    by blast
qed

text \<open>
  C4 as stated fails for a file without a zero byte that the classifier finds binary: the
  one-byte file \<open>b.bin\<close> is far below the cap and its record has no content.
\<close>

theorem binary_file_below_cap_has_no_content:
  "getGitChanges exampleHost ''/repo'' 1000000 True
     = [\<lparr> path = ''a.txt'', status = ''M'', content = Some ''hi\<newline>'', truncated = None,
          binary = None \<rparr>,
        \<lparr> path = ''b.bin'', status = ''??'', content = None, truncated = None,
          binary = Some True \<rparr>] \<and>
   readFile exampleHost (pathResolve exampleHost ''/repo'' ''b.bin'') = Some [1] \<and>
   (of_nat (length [1 :: byte]) :: rat) < 1000000 \<and>
   0 \<notin> set [1 :: byte]"
  by code_simp

end
